theory Spec2Isabelle
  imports Complex_Main "HOL-Library.Sublist"
begin

section \<open>Text\<close>

text \<open>
  A Python \<open>str\<close> is a sequence of Unicode code points. A text is modelled as the list of
  its code points, so that \<open>length\<close> counts what Python's \<open>len\<close> counts and a character
  class such as white space can be written down for the whole of Unicode.
  \<open>str\<close> turns a literal of the theory into such a list.
\<close>

type_synonym pystr = "nat list"

definition str :: "string \<Rightarrow> pystr" where
  "str s = map of_char s"

definition LF :: nat where "LF = 10"
definition CR :: nat where "CR = 13"

text \<open>
  The characters \<open>str.strip()\<close> removes when called without an argument: those for which
  \<open>str.isspace()\<close> holds (CPython's \<open>_PyUnicode_IsWhitespace\<close>).
\<close>

definition is_space :: "nat \<Rightarrow> bool" where
  "is_space c \<longleftrightarrow>
     (9 \<le> c \<and> c \<le> 13) \<or> (28 \<le> c \<and> c \<le> 32) \<or> c = 133 \<or> c = 160 \<or> c = 5760 \<or>
     (8192 \<le> c \<and> c \<le> 8202) \<or> c = 8232 \<or> c = 8233 \<or> c = 8239 \<or> c = 8287 \<or>
     c = 12288"

definition lstrip :: "pystr \<Rightarrow> pystr" where
  "lstrip s = dropWhile is_space s"

definition rstrip :: "pystr \<Rightarrow> pystr" where
  "rstrip s = rev (dropWhile is_space (rev s))"

definition strip :: "pystr \<Rightarrow> pystr" where
  "strip s = rstrip (lstrip s)"

section \<open>Text Extractor\<close>

text \<open>
  \<^verbatim>\<open>
  def extract_mermaid_code(text):
      mermaid_pattern = r"```mermaid(.*?)```"
      match = re.search(mermaid_pattern, text, re.DOTALL)
      if match:
          return match.group(1).strip()
      else:
          return None
  \<close>
  The pattern is a literal, a lazy group of arbitrary characters (with \<open>re.DOTALL\<close> the dot
  matches a line feed too) and a second literal. \<open>re.search\<close> tries the start positions from
  left to right and returns the first match; at a start position the lazy group is tried
  with 0, 1, 2, ... characters until the closing literal follows.
\<close>

definition fence :: pystr where
  "fence = str ''```''"

definition fence_mermaid :: pystr where
  "fence_mermaid = str ''```mermaid''"

text \<open>
  \<open>lazy_until lit s\<close>: the lazy group followed by the literal \<open>lit\<close>, matched at the start
  of \<open>s\<close>. The result is the group and the text left after the literal.
\<close>

fun lazy_until :: "pystr \<Rightarrow> pystr \<Rightarrow> (pystr \<times> pystr) option" where
  "lazy_until lit [] = (if prefix lit [] then Some ([], []) else None)"
| "lazy_until lit (c # cs) =
     (if prefix lit (c # cs) then Some ([], drop (length lit) (c # cs))
      else map_option (\<lambda>(g, r). (c # g, r)) (lazy_until lit cs))"

text \<open>\<open>match_at s\<close>: group 1 of the match of the whole pattern that begins at the start of \<open>s\<close>.\<close>

definition match_at :: "pystr \<Rightarrow> pystr option" where
  "match_at s =
     (if prefix fence_mermaid s
      then map_option fst (lazy_until fence (drop (length fence_mermaid) s))
      else None)"

fun re_search :: "pystr \<Rightarrow> pystr option" where
  "re_search [] = match_at []"
| "re_search (c # cs) =
     (case match_at (c # cs) of Some g \<Rightarrow> Some g | None \<Rightarrow> re_search cs)"

definition extract_mermaid_code :: "pystr \<Rightarrow> pystr option" where
  "extract_mermaid_code t = map_option strip (re_search t)"


text \<open>
  The specification speaks of the first fenced block of a text. \<open>spec_first_fenced_block\<close>
  says so in its words, not the code's: \<open>t\<close> is \<open>pre\<close>, the opening fence, \<open>body\<close>, the closing
  fence and \<open>post\<close>; no occurrence of the opening fence begins inside \<open>pre\<close> (this one is the
  first), and no occurrence of the closing fence begins inside \<open>body\<close> (this closing fence
  is the first that follows).
\<close>

definition spec_first_fenced_block :: "pystr \<Rightarrow> pystr \<Rightarrow> pystr \<Rightarrow> pystr \<Rightarrow> bool" where
  "spec_first_fenced_block t pre body post \<longleftrightarrow>
     t = pre @ fence_mermaid @ body @ fence @ post \<and>
     \<not> sublist fence_mermaid (pre @ butlast fence_mermaid) \<and>
     \<not> sublist fence (body @ butlast fence)"

section \<open>Text files\<close>

text \<open>
  The files the program touches, by path. A file holds the text as it is stored: what a
  text-mode \<open>write\<close> produced, before the translation a text-mode \<open>read\<close> applies.
  A path is written as the program writes it, relative to the working directory.
  What the program cannot decide itself is a field of the environment: the line separator
  of the platform (\<open>os.linesep\<close>); the code points the default encoding can encode, and for
  each of them the code point that decoding its encoding gives back (\<open>recode\<close>: the identity
  for UTF-8, but not for every locale codec: cp932 returns U+FFE0 for U+00A2); the paths that
  can be opened for writing; whether \<open>imgkit.config\<close> accepts the configured executable;
  what the external renderer makes of an HTML page (\<open>None\<close>: it raised); the content of the
  model's reply to a project description, a string or some other value (\<open>Inl\<close>: the call
  raised); and the application's root directory, as a prefix to put before a file name
  (empty when the root is the working directory).
\<close>

datatype py_error = TypeError | KeyError | OSError | UnicodeEncodeError | UpstreamError

datatype pyval =
    PNone
  | PBool bool
  | PInt int
  | PFloat real
  | PStr pystr
  | PList "pyval list"
  | PDict "(pystr \<times> pyval) list"

type_synonym files = "string \<Rightarrow> pystr option"

record env =
  linesep :: pystr
  encodable :: "nat \<Rightarrow> bool"
  can_write :: "string \<Rightarrow> bool"
  imgkit_config_ok :: bool
  wkhtmltoimage :: "pystr \<Rightarrow> pystr option"
  llm_invoke :: "pyval \<Rightarrow> py_error + pyval"
  recode :: "nat \<Rightarrow> nat"
  app_root :: string

text \<open>
  A text-mode \<open>write\<close> encodes the chunk (and raises \<open>UnicodeEncodeError\<close> when a character
  has no encoding) and stores every line feed as the platform's line separator.
\<close>

definition newline_out :: "env \<Rightarrow> pystr \<Rightarrow> pystr" where
  "newline_out e s = concat (map (\<lambda>c. if c = LF then linesep e else [c]) s)"

definition write_text :: "env \<Rightarrow> pystr \<Rightarrow> pystr option" where
  "write_text e s = (if list_all (encodable e) s then Some (newline_out e s) else None)"

text \<open>
  The chunks written inside one \<open>with open(path, "w")\<close> block, in order. The chunks before
  the one that raises stay in the file when the block is left.
\<close>

fun write_chunks :: "env \<Rightarrow> pystr list \<Rightarrow> pystr \<Rightarrow> bool \<times> pystr" where
  "write_chunks e [] acc = (True, acc)"
| "write_chunks e (c # cs) acc =
     (case write_text e c of
        None \<Rightarrow> (False, acc)
      | Some b \<Rightarrow> write_chunks e cs (acc @ b))"

text \<open>
  A text-mode \<open>read\<close> (\<open>newline=None\<close>) returns \<open>\r\n\<close> and a lone \<open>\r\<close> as \<open>\n\<close>.
\<close>

fun universal_newlines :: "pystr \<Rightarrow> pystr" where
  "universal_newlines [] = []"
| "universal_newlines [c] = [if c = CR then LF else c]"
| "universal_newlines (c # d # ds) =
     (if c = CR \<and> d = LF then LF # universal_newlines ds
      else if c = CR then LF # universal_newlines (d # ds)
      else c # universal_newlines (d # ds))"

text \<open>
  Before that translation the read decodes what is stored: a character that was written
  comes back as the codec's \<open>recode\<close> of it.
\<close>

definition read_text :: "env \<Rightarrow> pystr \<Rightarrow> pystr" where
  "read_text e stored = universal_newlines (map (recode e) stored)"

text \<open>A text that the codec gives back as it was written.\<close>

definition round_trips :: "env \<Rightarrow> pystr \<Rightarrow> bool" where
  "round_trips e s \<longleftrightarrow> list_all (\<lambda>c. recode e c = c) s"

text \<open>
  UTF-8 encodes every code point but the surrogates (U+D800 to U+DFFF), which a Python
  string can hold on their own.
\<close>

definition utf8_encodable :: "nat \<Rightarrow> bool" where
  "utf8_encodable c \<longleftrightarrow> \<not> (55296 \<le> c \<and> c \<le> 57343)"

section \<open>Diagram File Writer\<close>

text \<open>
  \<^verbatim>\<open>
  def save_to_readme(mermaid_code):
      try:
          with open("readme.md", "w") as f:
              f.write("## Mermaid Diagram\n")
              f.write("```mermaid\n")
              f.write(mermaid_code)
              f.write("\n```\n")
      except Exception as e:
          return False
      return True
  \<close>
  Opening the file truncates it; an \<open>open\<close> that raises leaves the files as they were.
\<close>

definition save_to_readme :: "env \<Rightarrow> files \<Rightarrow> pystr \<Rightarrow> bool \<times> files" where
  "save_to_readme e fs mermaid_code =
     (if \<not> can_write e ''readme.md'' then (False, fs)
      else case write_chunks e
                  [str ''## Mermaid Diagram\<newline>'', str ''```mermaid\<newline>'',
                   mermaid_code, str ''\<newline>```\<newline>''] [] of
             (ok, content) \<Rightarrow> (ok, fs(''readme.md'' \<mapsto> content)))"

section \<open>Diagram Renderer\<close>

definition html_content :: "pystr \<Rightarrow> pystr" where
  "html_content mermaid_code =
     str (''\<newline>'' @
          ''        <!DOCTYPE html>\<newline>'' @
          ''        <html>\<newline>'' @
          ''        <head>\<newline>'' @
          ''            <meta charset=\"UTF-8\">\<newline>'' @
          ''            <title>Mermaid Diagram</title>\<newline>'' @
          ''            <script src=\"https://cdn.jsdelivr.net/npm/mermaid@10.2.0/dist/mermaid.min.js\"></script>\<newline>'' @
          ''            <script>\<newline>'' @
          ''                document.addEventListener('DOMContentLoaded', function() {\<newline>'' @
          ''                    mermaid.initialize({ startOnLoad: true });\<newline>'' @
          ''                });\<newline>'' @
          ''            </script>\<newline>'' @
          ''        </head>\<newline>'' @
          ''        <body>\<newline>'' @
          ''            <div class=\"mermaid\">\<newline>'' @
          ''                '')
     @ mermaid_code @
     str (''\<newline>'' @
          ''            </div>\<newline>'' @
          ''        </body>\<newline>'' @
          ''        </html>\<newline>'' @
          ''        '')"

text \<open>
  The body of the \<open>try\<close> of \<open>convert_readme_to_png\<close>, step by step: \<open>imgkit.config\<close>, the read
  of the document, the extraction and the test \<open>if not mermaid_code\<close> (true of \<open>None\<close> and of
  the empty string), the write of \<open>temp.html\<close>, \<open>imgkit.from_file\<close> and \<open>os.remove\<close>. A step
  that raises ends the body with \<open>Inl\<close> and the files as they are then.
\<close>

definition convert_body :: "env \<Rightarrow> string \<Rightarrow> string \<Rightarrow> files \<Rightarrow> (py_error + bool) \<times> files" where
  "convert_body e readme_file output_png fs =
     (if \<not> imgkit_config_ok e then (Inl OSError, fs)
      else case fs readme_file of
        None \<Rightarrow> (Inl OSError, fs)
      | Some stored \<Rightarrow>
          (case extract_mermaid_code (read_text e stored) of
             None \<Rightarrow> (Inr False, fs)
           | Some mermaid_code \<Rightarrow>
               if mermaid_code = [] then (Inr False, fs)
               else if \<not> can_write e ''temp.html'' then (Inl OSError, fs)
               else (case write_text e (html_content mermaid_code) of
                  None \<Rightarrow> (Inl UnicodeEncodeError, fs(''temp.html'' \<mapsto> []))
                | Some page \<Rightarrow>
                    (case wkhtmltoimage e page of
                       None \<Rightarrow> (Inl OSError, fs(''temp.html'' \<mapsto> page))
                     | Some png \<Rightarrow>
                         (Inr True,
                          (fs(''temp.html'' \<mapsto> page, output_png \<mapsto> png))
                            (''temp.html'' := None))))))"

text \<open>\<open>except Exception: return False\<close>\<close>

definition convert_readme_to_png :: "env \<Rightarrow> string \<Rightarrow> string \<Rightarrow> files \<Rightarrow> bool \<times> files" where
  "convert_readme_to_png e readme_file output_png fs =
     (case convert_body e readme_file output_png fs of
        (Inl err, fs') \<Rightarrow> (False, fs')
      | (Inr ok, fs') \<Rightarrow> (ok, fs'))"

section \<open>Diagram Generator\<close>

text \<open>
  \<open>generate_mermaid_code\<close> interpolates the description into the prompt, calls the model
  and returns \<open>response.content\<close>; every exception becomes \<open>None\<close>. The model is the
  environment's \<open>llm_invoke\<close>, from the description to the content of the reply.
\<close>

definition generate_mermaid_code :: "env \<Rightarrow> pyval \<Rightarrow> pyval" where
  "generate_mermaid_code e project_description =
     (case llm_invoke e project_description of
        Inl err \<Rightarrow> PNone
      | Inr content \<Rightarrow> content)"

section \<open>HTTP Service Layer\<close>

text \<open>
  \<open>request.get_json()\<close> hands the handler a Python value: \<open>None\<close>, a truth value, a
  number, a string, a list or a dictionary with string keys. The three operations the
  handler applies to it are \<open>not data\<close>, \<open>'project_description' in data\<close> and
  \<open>data['project_description']\<close>; the last two raise \<open>TypeError\<close> on the values that do
  not support them.
\<close>

fun py_truthy :: "pyval \<Rightarrow> bool" where
  "py_truthy PNone = False"
| "py_truthy (PBool b) = b"
| "py_truthy (PInt i) = (i \<noteq> 0)"
| "py_truthy (PFloat x) = (x \<noteq> 0)"
| "py_truthy (PStr s) = (s \<noteq> [])"
| "py_truthy (PList xs) = (xs \<noteq> [])"
| "py_truthy (PDict kvs) = (kvs \<noteq> [])"

fun py_in :: "pystr \<Rightarrow> pyval \<Rightarrow> py_error + bool" where
  "py_in k (PStr s) = Inr (sublist k s)"
| "py_in k (PList xs) = Inr (PStr k \<in> set xs)"
| "py_in k (PDict kvs) = Inr (map_of kvs k \<noteq> None)"
| "py_in k v = Inl TypeError"

fun py_getitem :: "pyval \<Rightarrow> pystr \<Rightarrow> py_error + pyval" where
  "py_getitem (PDict kvs) k = (case map_of kvs k of None \<Rightarrow> Inl KeyError | Some v \<Rightarrow> Inr v)"
| "py_getitem v k = Inl TypeError"

text \<open>
  \<open>render_template_string\<close> renders a template given as a string with autoescaping on, so
  \<open>{{ mermaid_code }}\<close> is replaced by \<open>markupsafe.escape(mermaid_code)\<close>. The text around
  the blocks is kept as it is (\<open>trim_blocks\<close> and \<open>lstrip_blocks\<close> are off).
\<close>

definition escape_char :: "nat \<Rightarrow> pystr" where
  "escape_char c =
     (if c = 38 then str ''&amp;''
      else if c = 60 then str ''&lt;''
      else if c = 62 then str ''&gt;''
      else if c = 39 then str ''&#39;''
      else if c = 34 then str ''&#34;''
      else [c])"

definition escape :: "pystr \<Rightarrow> pystr" where
  "escape s = concat (map escape_char s)"

definition img_tag :: pystr where
  "img_tag = str ''<img src=\"/get_png\" alt=\"Mermaid Diagram\">''"

text \<open>The template, cut at its two \<open>if\<close> blocks and at \<open>{{ mermaid_code }}\<close>.\<close>

definition tpl_head :: pystr where
  "tpl_head =
     str (''\<newline>'' @
          ''         <!DOCTYPE html>\<newline>'' @
          ''        <html>                                  \<newline>'' @
          ''        <h1>Mermaid Diagram Generator</h1>\<newline>'' @
          ''\<newline>'' @
          ''        '')"

definition tpl_code_open :: pystr where
  "tpl_code_open =
     str (''\<newline>'' @
          ''            <h2>Generated Mermaid Diagram:</h2>\<newline>'' @
          ''            <div id=\"mermaid-diagram\">\<newline>'' @
          ''                <pre class=\"mermaid\">\<newline>'' @
          ''                    '')"

definition tpl_code_close :: pystr where
  "tpl_code_close =
     str (''\<newline>'' @
          ''                </pre>\<newline>'' @
          ''            </div>\<newline>'' @
          ''        '')"

definition tpl_between :: pystr where
  "tpl_between =
     str (''\<newline>'' @
          ''\<newline>'' @
          ''        '')"

definition tpl_png_open :: pystr where
  "tpl_png_open =
     str (''\<newline>'' @
          ''            <h2>Mermaid Diagram (PNG):</h2>\<newline>'' @
          ''            '')"

definition tpl_png_close :: pystr where
  "tpl_png_close =
     str (''\<newline>'' @
          ''        '')"

definition tpl_tail :: pystr where
  "tpl_tail =
     str (''\<newline>'' @
          ''\<newline>'' @
          ''        <script src=\"https://cdn.jsdelivr.net/npm/mermaid@10.2.0/dist/mermaid.min.js\"></script>\<newline>'' @
          ''        <script>\<newline>'' @
          ''            mermaid.initialize({ startOnLoad: true });\<newline>'' @
          ''        </script>\<newline>'' @
          ''        </html>\<newline>'' @
          ''    '')"

definition render_template :: "pystr \<Rightarrow> bool \<Rightarrow> pystr" where
  "render_template mermaid_code png_available =
     tpl_head
     @ (if mermaid_code \<noteq> [] then tpl_code_open @ escape mermaid_code @ tpl_code_close else [])
     @ tpl_between
     @ (if png_available then tpl_png_open @ img_tag @ tpl_png_close else [])
     @ tpl_tail"

text \<open>
  What a view function returns: a status, the content type when the code sets one, and the
  body (a dictionary, which Flask sends as JSON, a string, or the content of a file).
\<close>

datatype body = Json "(pystr \<times> pystr) list" | Text pystr | FileContent pystr

record response =
  status :: nat
  mimetype :: "string option"
  payload :: body

text \<open>
  The stages of a request the handler enters, in order: the call of
  \<open>generate_mermaid_code\<close>, of \<open>extract_mermaid_code\<close>, of \<open>save_to_readme\<close> and of
  \<open>convert_readme_to_png\<close>. The list is not in the source; it records which calls were made.
\<close>

datatype stage = Generating | Extracting | Writing | Rendering

record outcome =
  reply :: "py_error + response"
  files_after :: files
  stages :: "stage list"

definition failed_message :: pystr where
  "failed_message = str ''Failed to generate Mermaid code.''"

definition not_found_message :: pystr where
  "not_found_message = str ''Mermaid code not found in the response.''"

text \<open>
  Lines 128 to 145 of the handler: the values of \<open>mermaid_code\<close> and \<open>png_available\<close> passed
  to the template, the files afterwards and the stages entered. \<open>if mermaid_text\<close> is false
  of \<open>None\<close> and of every other falsy content, \<open>if mermaid_code\<close> of \<open>None\<close> and of the empty
  string. A truthy content that is not a string makes \<open>re.search\<close> raise \<open>TypeError\<close> inside
  \<open>extract_mermaid_code\<close>, which the handler does not catch.
\<close>

definition mermaid_pipeline ::
    "env \<Rightarrow> files \<Rightarrow> pyval \<Rightarrow> (py_error + pystr \<times> bool) \<times> files \<times> stage list" where
  "mermaid_pipeline e fs project_description =
     (case generate_mermaid_code e project_description of
        PStr mermaid_text \<Rightarrow>
          if mermaid_text = [] then (Inr (failed_message, False), fs, [Generating])
          else (case extract_mermaid_code mermaid_text of
             None \<Rightarrow> (Inr (not_found_message, False), fs, [Generating, Extracting])
           | Some mermaid_code \<Rightarrow>
               if mermaid_code = []
               then (Inr (not_found_message, False), fs, [Generating, Extracting])
               else (case save_to_readme e fs mermaid_code of
                  (saved, fs1) \<Rightarrow>
                    (case convert_readme_to_png e ''readme.md'' ''mermaid_diagram.png'' fs1 of
                       (png_available, fs2) \<Rightarrow>
                         (Inr (mermaid_code, png_available), fs2,
                          [Generating, Extracting, Writing, Rendering]))))
      | mermaid_text \<Rightarrow>
          if py_truthy mermaid_text then (Inl TypeError, fs, [Generating, Extracting])
          else (Inr (failed_message, False), fs, [Generating]))"

definition bad_request :: response where
  "bad_request =
     \<lparr>status = 400, mimetype = None,
      payload = Json [(str ''error'', str ''JSON payload with 'project_description' key required.'')]\<rparr>"

definition mermaid_endpoint :: "env \<Rightarrow> files \<Rightarrow> pyval \<Rightarrow> outcome" where
  "mermaid_endpoint e fs data =
     (if \<not> py_truthy data
      then \<lparr>reply = Inr bad_request, files_after = fs, stages = []\<rparr>
      else case py_in (str ''project_description'') data of
        Inl err \<Rightarrow> \<lparr>reply = Inl err, files_after = fs, stages = []\<rparr>
      | Inr False \<Rightarrow> \<lparr>reply = Inr bad_request, files_after = fs, stages = []\<rparr>
      | Inr True \<Rightarrow>
          (case py_getitem data (str ''project_description'') of
             Inl err \<Rightarrow> \<lparr>reply = Inl err, files_after = fs, stages = []\<rparr>
           | Inr project_description \<Rightarrow>
               (case mermaid_pipeline e fs project_description of
                  (Inl err, fs', st) \<Rightarrow> \<lparr>reply = Inl err, files_after = fs', stages = st\<rparr>
                | (Inr (mermaid_code, png_available), fs', st) \<Rightarrow>
                    \<lparr>reply = Inr \<lparr>status = 200, mimetype = Some ''text/html'',
                                   payload = Text (render_template mermaid_code png_available)\<rparr>,
                     files_after = fs', stages = st\<rparr>)))"

text \<open>
  \<^verbatim>\<open>
  def get_png():
      try:
          return send_file("mermaid_diagram.png", mimetype='image/png')
      except FileNotFoundError:
          return "PNG image not found.", 404
  \<close>
  Flask's \<open>send_file\<close> takes a relative name as relative to the application's root
  directory, not to the working directory in which the renderer wrote its picture. The
  request is a plain GET, without conditional or range headers.
\<close>

definition get_png :: "env \<Rightarrow> files \<Rightarrow> response" where
  "get_png e fs =
     (case fs (app_root e @ ''mermaid_diagram.png'') of
        Some content \<Rightarrow> \<lparr>status = 200, mimetype = Some ''image/png'', payload = FileContent content\<rparr>
      | None \<Rightarrow> \<lparr>status = 404, mimetype = None, payload = Text (str ''PNG image not found.'')\<rparr>)"

text \<open>
  The status the client sees. Flask answers a handler that raised with 500. A string the
  handler returned is turned into the body of the response by encoding it as UTF-8, after
  the handler has returned and outside every \<open>try\<close>: when that raises, the client gets 500
  too. Otherwise the status is the one the handler returned.
\<close>

definition http_status :: "outcome \<Rightarrow> nat" where
  "http_status out =
     (case reply out of
        Inl err \<Rightarrow> 500
      | Inr r \<Rightarrow>
          (case payload r of
             Text page \<Rightarrow> if list_all utf8_encodable page then status r else 500
           | Json obj \<Rightarrow> status r
           | FileContent content \<Rightarrow> status r))"

section \<open>Reading the document back\<close>

text \<open>
  What \<open>convert_readme_to_png\<close> extracts from the Diagram Document: the text-mode read of
  \<open>readme.md\<close> (\<open>None\<close> when the file is missing), passed to \<open>extract_mermaid_code\<close>.
\<close>

definition read_back :: "env \<Rightarrow> files \<Rightarrow> pystr option" where
  "read_back e fs =
     (case fs ''readme.md'' of
        None \<Rightarrow> None
      | Some stored \<Rightarrow> extract_mermaid_code (read_text e stored))"

text \<open>
  The number of lines of a text that ends each line with a line feed, and the part of a
  document before its opening fence: the header the specification speaks of.
\<close>

definition line_count :: "pystr \<Rightarrow> nat" where
  "line_count s = length (filter (\<lambda>c. c = LF) s)"

definition spec_header :: "pystr \<Rightarrow> pystr" where
  "spec_header doc = (case lazy_until fence_mermaid doc of None \<Rightarrow> doc | Some (h, rest) \<Rightarrow> h)"

section \<open>Example environments\<close>

text \<open>
  A POSIX machine with UTF-8 as its encoding, started in the application's root directory:
  the line separator is a line feed, every character but a surrogate can be encoded and
  decodes to itself, every path can be written, the renderer turns any page into the
  picture \<open>png\<close> (or raises when there is none), and the model answers every description
  with \<open>answer\<close>.
\<close>

definition posix_env :: "py_error + pyval \<Rightarrow> pystr option \<Rightarrow> env" where
  "posix_env answer png =
     \<lparr>linesep = [LF], encodable = utf8_encodable, can_write = (\<lambda>p. True),
      imgkit_config_ok = True, wkhtmltoimage = (\<lambda>page. png), llm_invoke = (\<lambda>d. answer),
      recode = (\<lambda>c. c), app_root = []\<rparr>"

section \<open>Properties of the extractor\<close>

lemma length_fence [simp]: "length fence = 3"
  by (simp add: fence_def str_def)

lemma length_fence_mermaid [simp]: "length fence_mermaid = 10"
  by (simp add: fence_mermaid_def str_def)

lemma fence_mermaid_split: "fence_mermaid = fence @ str ''mermaid''"
  by (simp add: fence_mermaid_def fence_def str_def)

lemma sublist_length_le: "sublist p s \<Longrightarrow> length p \<le> length s"
  by (auto simp: sublist_def)

lemma sublist_append_right: "sublist p g \<Longrightarrow> sublist p (g @ x)"
proof -
  assume "sublist p g"
  then obtain ps ss where "g = ps @ p @ ss" by (auto simp: sublist_def)
  then have "g @ x = ps @ p @ (ss @ x)" by simp
  then show ?thesis unfolding sublist_def by blast
qed

lemma sublist_append_left: "sublist p g \<Longrightarrow> sublist p (x @ g)"
proof -
  assume "sublist p g"
  then obtain ps ss where "g = ps @ p @ ss" by (auto simp: sublist_def)
  then have "x @ g = (x @ ps) @ p @ ss" by simp
  then show ?thesis unfolding sublist_def by blast
qed

lemma prefix_shorten:
  assumes "prefix p (a @ b)" and "length p \<le> length a"
  shows "prefix p a"
proof -
  from assms(1) obtain zs where e: "a @ b = p @ zs" by (auto simp: prefix_def)
  have "take (length p) (a @ b) = p" unfolding e by simp
  moreover have "take (length p) (a @ b) = take (length p) a" using assms(2) by simp
  ultimately have "take (length p) a = p" by simp
  then have "a = p @ drop (length p) a" by (metis append_take_drop_id)
  then show ?thesis by (metis prefixI)
qed

lemma prefix_butlast_extend:
  "p \<noteq> [] \<Longrightarrow> prefix p (x @ butlast p) \<Longrightarrow> prefix p (x @ p @ r)"
proof -
  assume ne: "p \<noteq> []" and pr: "prefix p (x @ butlast p)"
  have "x @ p @ r = (x @ butlast p) @ (last p # r)" using ne by simp
  then show ?thesis using pr by (metis prefix_prefix)
qed

lemma lazy_until_sound:
  "lit \<noteq> [] \<Longrightarrow> lazy_until lit s = Some (g, r) \<Longrightarrow> s = g @ lit @ r \<and> \<not> sublist lit (g @ butlast lit)"
proof (induction s arbitrary: g)
  case Nil
  then show ?case by simp
next
  case (Cons c cs)
  show ?case
  proof (cases "prefix lit (c # cs)")
    case True
    with Cons.prems have g: "g = []" and r: "r = drop (length lit) (c # cs)" by auto
    from True have "c # cs = lit @ r" unfolding r by (auto simp: prefix_def)
    moreover have "\<not> sublist lit (butlast lit)"
      using sublist_length_le [of lit "butlast lit"] Cons.prems(1) by (cases lit rule: rev_cases) auto
    ultimately show ?thesis using g by simp
  next
    case False
    with Cons.prems obtain g' where g: "g = c # g'" and l: "lazy_until lit cs = Some (g', r)"
      by auto
    from Cons.IH [OF Cons.prems(1) l] have cs: "cs = g' @ lit @ r"
      and ns: "\<not> sublist lit (g' @ butlast lit)" by auto
    have "\<not> prefix lit (c # g' @ butlast lit)"
      using False prefix_butlast_extend [OF Cons.prems(1), of "c # g'" r] cs by auto
    then show ?thesis using g cs ns Cons.prems(1)
      by (cases lit) (auto simp: sublist_Cons_right)
  qed
qed


lemma lazy_until_complete:
  "lit \<noteq> [] \<Longrightarrow> \<not> sublist lit (g @ butlast lit) \<Longrightarrow> lazy_until lit (g @ lit @ r) = Some (g, r)"
proof (induction g)
  case Nil
  then show ?case by (cases lit) auto
next
  case (Cons c g)
  from Cons.prems(2) have np: "\<not> prefix lit (c # g @ butlast lit)"
    and ns: "\<not> sublist lit (g @ butlast lit)"
    using Cons.prems(1) by (cases lit; auto simp: sublist_Cons_right)+
  have "length lit \<le> length (c # g @ butlast lit)" by simp
  then have "\<not> prefix lit ((c # g @ butlast lit) @ (last lit # r))"
    using np prefix_shorten by blast
  moreover have "butlast lit @ last lit # r = lit @ r"
    using Cons.prems(1) by (metis append_butlast_last_id append_Cons append_Nil append_assoc)
  ultimately have "\<not> prefix lit (c # g @ lit @ r)" by simp
  then show ?case using Cons.IH [OF Cons.prems(1) ns] by simp
qed

lemma lazy_until_None: "lit \<noteq> [] \<Longrightarrow> lazy_until lit s = None \<longleftrightarrow> \<not> sublist lit s"
  by (induction s) (auto simp: sublist_Cons_right neq_Nil_conv)


lemma fence_ne [simp]: "fence \<noteq> []" "fence_mermaid \<noteq> []"
  by (simp_all add: fence_def fence_mermaid_def str_def)

lemma match_at_Some:
  "match_at s = Some body \<longleftrightarrow>
     (\<exists>post. s = fence_mermaid @ body @ fence @ post \<and> \<not> sublist fence (body @ butlast fence))"
proof
  assume m: "match_at s = Some body"
  then have p: "prefix fence_mermaid s" by (auto simp: match_at_def split: if_splits)
  then have s: "s = fence_mermaid @ drop 10 s" by (auto simp: prefix_def)
  from m p obtain post where "lazy_until fence (drop 10 s) = Some (body, post)"
    by (auto simp: match_at_def)
  from lazy_until_sound [OF fence_ne(1) this] s
  show "\<exists>post. s = fence_mermaid @ body @ fence @ post \<and> \<not> sublist fence (body @ butlast fence)"
    by metis
next
  assume "\<exists>post. s = fence_mermaid @ body @ fence @ post \<and> \<not> sublist fence (body @ butlast fence)"
  then obtain post where s: "s = fence_mermaid @ body @ fence @ post"
    and n: "\<not> sublist fence (body @ butlast fence)" by blast
  show "match_at s = Some body"
    unfolding s match_at_def using lazy_until_complete [OF fence_ne(1) n, of post] by simp
qed

lemma match_at_None:
  "match_at s = None \<longleftrightarrow> \<not> (prefix fence_mermaid s \<and> sublist fence (drop 10 s))"
  using lazy_until_None [OF fence_ne(1), of "drop 10 s"] by (auto simp: match_at_def)

lemma not_prefix_of_not_sublist:
  assumes "p \<noteq> []" and "\<not> sublist p ((c # x) @ butlast p)"
  shows "\<not> prefix p (c # x @ p @ r)" and "\<not> sublist p (x @ butlast p)"
proof -
  from assms have np: "\<not> prefix p (c # x @ butlast p)" and ns: "\<not> sublist p (x @ butlast p)"
    by (cases p; auto simp: sublist_Cons_right)+
  show "\<not> sublist p (x @ butlast p)" by (rule ns)
  have "length p \<le> length (c # x @ butlast p)" by simp
  then have "\<not> prefix p ((c # x @ butlast p) @ (last p # r))"
    using np prefix_shorten by blast
  moreover have "butlast p @ last p # r = p @ r"
    using assms(1) by (metis append_butlast_last_id append_Cons append_Nil append_assoc)
  ultimately show "\<not> prefix p (c # x @ p @ r)" by simp
qed

lemma re_search_first:
  assumes "\<not> sublist fence_mermaid (pre @ butlast fence_mermaid)"
    and "\<not> sublist fence (body @ butlast fence)"
  shows "re_search (pre @ fence_mermaid @ body @ fence @ post) = Some body"
  using assms(1)
proof (induction pre)
  case Nil
  have m: "match_at (fence_mermaid @ body @ fence @ post) = Some body"
    using assms(2) by (auto simp: match_at_Some)
  show ?case
  proof (cases "fence_mermaid @ body @ fence @ post")
    case Nil
    then show ?thesis by simp
  next
    case (Cons a list)
    then show ?thesis using m by simp
  qed
next
  case (Cons c pre)
  from not_prefix_of_not_sublist [OF fence_ne(2), of c pre] Cons.prems
  have np: "\<not> prefix fence_mermaid (c # pre @ fence_mermaid @ body @ fence @ post)"
    and ns: "\<not> sublist fence_mermaid (pre @ butlast fence_mermaid)" by auto
  from np have "match_at (c # pre @ fence_mermaid @ body @ fence @ post) = None"
    by (simp add: match_at_def)
  then show ?case using Cons.IH [OF ns] by simp
qed

lemma re_search_Some_block:
  "re_search t = Some body \<Longrightarrow>
     \<exists>pre post. t = pre @ fence_mermaid @ body @ fence @ post \<and>
        \<not> sublist fence_mermaid (pre @ butlast fence_mermaid) \<and>
        \<not> sublist fence (body @ butlast fence)"
proof (induction t)
  case Nil
  then show ?case by (simp add: match_at_def)
next
  case (Cons c cs)
  have nb: "\<not> sublist fence_mermaid (butlast fence_mermaid)"
    using sublist_length_le [of fence_mermaid "butlast fence_mermaid"] by auto
  show ?case
  proof (cases "match_at (c # cs)")
    case (Some g)
    with Cons.prems have "match_at (c # cs) = Some body" by simp
    then obtain post where "c # cs = [] @ fence_mermaid @ body @ fence @ post"
      and "\<not> sublist fence (body @ butlast fence)" by (auto simp: match_at_Some)
    then have "c # cs = [] @ fence_mermaid @ body @ fence @ post \<and>
        \<not> sublist fence_mermaid ([] @ butlast fence_mermaid) \<and>
        \<not> sublist fence (body @ butlast fence)" using nb by simp
    then show ?thesis by (intro exI)
  next
    case None
    with Cons.prems have "re_search cs = Some body" by simp
    from Cons.IH [OF this] obtain pre post where
      cs: "cs = pre @ fence_mermaid @ body @ fence @ post"
      and n1: "\<not> sublist fence_mermaid (pre @ butlast fence_mermaid)"
      and n2: "\<not> sublist fence (body @ butlast fence)" by blast
    have "\<not> prefix fence_mermaid (c # cs)"
    proof
      assume p: "prefix fence_mermaid (c # cs)"
      have "drop 10 (c # cs) = drop 9 pre @ drop (9 - length pre) (fence_mermaid @ body @ fence @ post)"
        unfolding cs by simp
      moreover have "sublist fence (drop (9 - length pre) (fence_mermaid @ body @ fence @ post))"
      proof -
        have "drop (9 - length pre) (fence_mermaid @ body @ fence @ post)
            = drop (9 - length pre) (fence_mermaid @ body) @ fence @ post"
          by simp
        then show ?thesis by (simp only: sublist_appendI)
      qed
      ultimately have "sublist fence (drop 10 (c # cs))"
        by (simp only: sublist_append_left)
      with p None show False by (simp add: match_at_None)
    qed
    then have "\<not> prefix fence_mermaid (c # pre @ butlast fence_mermaid)"
      unfolding cs using prefix_butlast_extend [OF fence_ne(2), of "c # pre"] by auto
    then have "\<not> sublist fence_mermaid ((c # pre) @ butlast fence_mermaid)"
      using n1 by (simp add: sublist_Cons_right fence_mermaid_def str_def)
    then have "c # cs = (c # pre) @ fence_mermaid @ body @ fence @ post \<and>
        \<not> sublist fence_mermaid ((c # pre) @ butlast fence_mermaid) \<and>
        \<not> sublist fence (body @ butlast fence)" using cs n2 by simp
    then show ?thesis by blast
  qed
qed


lemma rstrip_prefix: "s = rstrip s @ rev (takeWhile is_space (rev s))"
  by (simp only: rstrip_def rev_append [symmetric] takeWhile_dropWhile_id rev_rev_ident)

lemma strip_decomp:
  "s = takeWhile is_space s @ strip s @ rev (takeWhile is_space (rev (lstrip s)))"
proof -
  have "s = takeWhile is_space s @ lstrip s" by (simp add: lstrip_def)
  also have "lstrip s = strip s @ rev (takeWhile is_space (rev (lstrip s)))"
    unfolding strip_def by (rule rstrip_prefix)
  finally show ?thesis .
qed

lemma strip_sublist: "sublist (strip s) s"
  unfolding sublist_def using strip_decomp by blast

lemma lstrip_id: "s = [] \<or> \<not> is_space (hd s) \<Longrightarrow> lstrip s = s"
  by (cases s) (auto simp: lstrip_def)

lemma rstrip_id: "s = [] \<or> \<not> is_space (last s) \<Longrightarrow> rstrip s = s"
  by (cases s rule: rev_cases) (auto simp: rstrip_def)

lemma lstrip_hd: "lstrip s \<noteq> [] \<Longrightarrow> \<not> is_space (hd (lstrip s))"
  unfolding lstrip_def by (metis hd_dropWhile)

lemma rstrip_last: "rstrip s \<noteq> [] \<Longrightarrow> \<not> is_space (last (rstrip s))"
proof -
  assume ne: "rstrip s \<noteq> []"
  then have "dropWhile is_space (rev s) \<noteq> []" by (simp add: rstrip_def)
  then have "\<not> is_space (hd (dropWhile is_space (rev s)))" by (rule hd_dropWhile)
  moreover have "last (rstrip s) = hd (dropWhile is_space (rev s))"
    using ne by (simp add: rstrip_def last_rev)
  ultimately show ?thesis by simp
qed

lemma rstrip_hd: "rstrip s \<noteq> [] \<Longrightarrow> hd (rstrip s) = hd s"
  using rstrip_prefix [of s] by (metis hd_append2)

lemma strip_ends:
  assumes "strip s \<noteq> []"
  shows "\<not> is_space (hd (strip s))" and "\<not> is_space (last (strip s))"
proof -
  from assms have ne: "rstrip (lstrip s) \<noteq> []" by (simp add: strip_def)
  then have l: "lstrip s \<noteq> []" by (auto simp: rstrip_def)
  show "\<not> is_space (last (strip s))" unfolding strip_def using ne by (rule rstrip_last)
  show "\<not> is_space (hd (strip s))"
    unfolding strip_def using rstrip_hd [OF ne] lstrip_hd [OF l] by simp
qed

lemma strip_id: "s = [] \<or> (\<not> is_space (hd s) \<and> \<not> is_space (last s)) \<Longrightarrow> strip s = s"
  unfolding strip_def using lstrip_id [of s] rstrip_id [of s] by auto

lemma strip_idem: "strip (strip s) = strip s"
  using strip_ends [of s] strip_id [of "strip s"] by blast

lemma prefix_sep: "c \<notin> set p \<Longrightarrow> prefix p (u @ c # b) \<longleftrightarrow> prefix p u"
proof
  assume c: "c \<notin> set p" and "prefix p (u @ c # b)"
  then consider "prefix p u" | q where "p = u @ q" "prefix q (c # b)"
    by (auto simp: prefix_append)
  then show "prefix p u"
  proof cases
    case 1
    then show ?thesis .
  next
    case 2
    with c have "q = []" by (cases q) auto
    with 2 show ?thesis by simp
  qed
next
  assume "prefix p u"
  then show "prefix p (u @ c # b)" by (rule prefix_prefix)
qed

lemma sublist_sep: "c \<notin> set p \<Longrightarrow> sublist p (a @ c # b) \<longleftrightarrow> sublist p a \<or> sublist p b"
proof (induction a)
  case Nil
  then show ?case by (cases p) (auto simp: sublist_Cons_right)
next
  case (Cons x a)
  have "prefix p ((x # a) @ c # b) \<longleftrightarrow> prefix p (x # a)"
    using Cons.prems by (rule prefix_sep)
  then show ?case using Cons.IH [OF Cons.prems]
    by (auto simp: sublist_Cons_right)
qed

lemma re_search_Some_iff:
  "re_search t = Some body \<longleftrightarrow> (\<exists>pre post. spec_first_fenced_block t pre body post)"
  unfolding spec_first_fenced_block_def
  using re_search_Some_block [of t body] re_search_first by blast

lemma re_search_None_iff:
  "re_search t = None \<longleftrightarrow> \<not> (\<exists>pre body post. t = pre @ fence_mermaid @ body @ fence @ post)"
proof
  assume n: "re_search t = None"
  show "\<not> (\<exists>pre body post. t = pre @ fence_mermaid @ body @ fence @ post)"
  proof
    assume "\<exists>pre body post. t = pre @ fence_mermaid @ body @ fence @ post"
    then obtain pre body post where t: "t = pre @ fence_mermaid @ body @ fence @ post" by blast
    have "re_search (pre @ fence_mermaid @ body @ fence @ post) \<noteq> None"
    proof (induction pre)
      case Nil
      have "sublist fence (body @ fence @ post)" by (rule sublist_appendI)
      then have "match_at (fence_mermaid @ body @ fence @ post) \<noteq> None"
        by (simp add: match_at_None)
      then show ?case by (cases "fence_mermaid @ body @ fence @ post") auto
    next
      case (Cons c pre)
      then show ?case by (auto split: option.splits)
    qed
    with n t show False by simp
  qed
next
  assume "\<not> (\<exists>pre body post. t = pre @ fence_mermaid @ body @ fence @ post)"
  then show "re_search t = None"
    using re_search_Some_block [of t] by (cases "re_search t") auto
qed

section \<open>Claims about the extractor\<close>

text \<open>
  C1. For every input text, \<open>extract_mermaid_code\<close> returns exactly the trimmed interior of
  the first fenced block opened by the mermaid fence and closed by the next fence (later
  blocks are ignored), and it returns \<open>None\<close> exactly when the text holds no such block.
  The function is total, so no input makes it raise.
\<close>
theorem extract_mermaid_code_first_block:
  "(extract_mermaid_code t = Some v \<longleftrightarrow>
      (\<exists>pre body post. spec_first_fenced_block t pre body post \<and> v = strip body)) \<and>
   (extract_mermaid_code t = None \<longleftrightarrow>
      \<not> (\<exists>pre body post. t = pre @ fence_mermaid @ body @ fence @ post))"
proof
  show "extract_mermaid_code t = Some v \<longleftrightarrow>
      (\<exists>pre body post. spec_first_fenced_block t pre body post \<and> v = strip body)"
    using re_search_Some_iff [of t] by (auto simp: extract_mermaid_code_def)
  show "extract_mermaid_code t = None \<longleftrightarrow>
      \<not> (\<exists>pre body post. t = pre @ fence_mermaid @ body @ fence @ post)"
    using re_search_None_iff [of t] by (simp add: extract_mermaid_code_def)
qed

lemmas ev = str_def fence_def fence_mermaid_def sublist_code is_space_def strip_def lstrip_def rstrip_def

theorem extract_mermaid_code_first_block_witness:
  "extract_mermaid_code (str ''see: ```mermaid\<newline> graph TD; A-->B \<newline>``` and ```mermaid\<newline>X```'')
     = Some (str ''graph TD; A-->B'') \<and>
   \<not> (\<exists>pre body post. str ''```mermaid graph TD'' = pre @ fence_mermaid @ body @ fence @ post)"
proof
  have b: "spec_first_fenced_block
      (str ''see: ```mermaid\<newline> graph TD; A-->B \<newline>``` and ```mermaid\<newline>X```'')
      (str ''see: '') (str ''\<newline> graph TD; A-->B \<newline>'') (str '' and ```mermaid\<newline>X```'')"
    by (simp add: spec_first_fenced_block_def ev)
  have s: "str ''graph TD; A-->B'' = strip (str ''\<newline> graph TD; A-->B \<newline>'')"
    by (simp add: ev)
  from b s extract_mermaid_code_first_block
    [of "str ''see: ```mermaid\<newline> graph TD; A-->B \<newline>``` and ```mermaid\<newline>X```''"
        "str ''graph TD; A-->B''"]
  show "extract_mermaid_code (str ''see: ```mermaid\<newline> graph TD; A-->B \<newline>``` and ```mermaid\<newline>X```'')
     = Some (str ''graph TD; A-->B'')" by blast
  have "extract_mermaid_code (str ''```mermaid graph TD'') = None"
    by (simp add: extract_mermaid_code_def match_at_def ev)
  with extract_mermaid_code_first_block [of "str ''```mermaid graph TD''"]
  show "\<not> (\<exists>pre body post. str ''```mermaid graph TD'' = pre @ fence_mermaid @ body @ fence @ post)"
    by blast
qed


lemma LF_notin_fence: "LF \<notin> set fence"
  by (simp add: fence_def str_def LF_def)

lemma is_space_LF: "is_space LF"
  by (simp add: is_space_def LF_def)

lemma strip_fixed_ends: "strip v = v \<Longrightarrow> v = [] \<or> (\<not> is_space (hd v) \<and> \<not> is_space (last v))"
  using strip_ends [of v] by auto

lemma strip_wrapped: "strip v = v \<Longrightarrow> strip (LF # v @ [LF]) = v"
proof -
  assume sv: "strip v = v"
  show ?thesis
  proof (cases "v = []")
    case True
    then show ?thesis by (simp add: strip_def lstrip_def rstrip_def is_space_LF)
  next
    case False
    with strip_fixed_ends [OF sv] have h: "\<not> is_space (hd v)" and l: "\<not> is_space (last v)"
      by auto
    have "lstrip (LF # v @ [LF]) = v @ [LF]"
      using False h by (cases v) (auto simp: lstrip_def is_space_LF)
    moreover have "rstrip (v @ [LF]) = v"
      using False l by (cases v rule: rev_cases) (auto simp: rstrip_def is_space_LF)
    ultimately show ?thesis by (simp add: strip_def)
  qed
qed

lemma not_sublist_short: "length s < length p \<Longrightarrow> \<not> sublist p s"
  using sublist_length_le [of p s] by auto

lemma fence_free_wrapped:
  assumes "\<not> sublist fence v"
  shows "\<not> sublist fence ((LF # v @ [LF]) @ butlast fence)"
proof -
  have "\<not> sublist fence (butlast fence)" by (rule not_sublist_short) simp
  then have "\<not> sublist fence (v @ LF # butlast fence)"
    using assms by (simp add: sublist_sep [OF LF_notin_fence])
  moreover have "\<not> sublist fence []" by (rule not_sublist_short) simp
  ultimately have "\<not> sublist fence ([] @ LF # (v @ LF # butlast fence))"
    by (simp only: sublist_sep [OF LF_notin_fence] simp_thms)
  then show ?thesis by simp
qed

lemma extract_wrapped:
  assumes "\<not> sublist fence_mermaid (pre @ butlast fence_mermaid)"
    and "\<not> sublist fence v" and "strip v = v"
  shows "extract_mermaid_code (pre @ fence_mermaid @ (LF # v @ [LF]) @ fence @ post) = Some v"
  using re_search_first [OF assms(1) fence_free_wrapped [OF assms(2)], of post]
    strip_wrapped [OF assms(3)]
  by (simp add: extract_mermaid_code_def)

text \<open>
  C10. Every value \<open>extract_mermaid_code\<close> returns holds no occurrence of the fence, is its
  own trim and, when it is not empty, neither begins nor ends with white space; wrapped
  again in a fenced block, it is what the next extraction returns.
\<close>
theorem extract_output_fence_free_trimmed:
  "extract_mermaid_code t = Some v \<Longrightarrow>
     \<not> sublist fence v \<and> strip v = v \<and>
     (v \<noteq> [] \<longrightarrow> \<not> is_space (hd v) \<and> \<not> is_space (last v)) \<and>
     extract_mermaid_code (fence_mermaid @ (LF # v @ [LF]) @ fence @ post) = Some v"
proof -
  have nb: "\<not> sublist fence_mermaid ([] @ butlast fence_mermaid)"
    using not_sublist_short [of "butlast fence_mermaid" fence_mermaid] by simp
  assume "extract_mermaid_code t = Some v"
  then obtain body where r: "re_search t = Some body" and v: "v = strip body"
    by (auto simp: extract_mermaid_code_def)
  from re_search_Some_block [OF r] have "\<not> sublist fence (body @ butlast fence)" by blast
  then have "\<not> sublist fence body" using sublist_append_right by blast
  then have "\<not> sublist fence v"
    unfolding v using strip_sublist [of body] sublist_order.order.trans by blast
  then show ?thesis
    unfolding v using strip_idem strip_ends extract_wrapped [OF nb, of "strip body" post]
    by (metis append_Nil)
qed

theorem extract_output_fence_free_trimmed_witness:
  "extract_mermaid_code (str ''Here: ```mermaid  graph TD; A-->B\<newline>``` done'')
      = Some (str ''graph TD; A-->B'') \<and>
   \<not> sublist fence (str ''graph TD; A-->B'') \<and>
   strip (str ''graph TD; A-->B'') = str ''graph TD; A-->B'' \<and>
   extract_mermaid_code (fence_mermaid @ (LF # str ''graph TD; A-->B'' @ [LF]) @ fence @ [LF])
      = Some (str ''graph TD; A-->B'')"
proof -
  have x: "extract_mermaid_code (str ''Here: ```mermaid  graph TD; A-->B\<newline>``` done'')
      = Some (str ''graph TD; A-->B'')"
    by (simp add: extract_mermaid_code_def match_at_def ev)
  from extract_output_fence_free_trimmed [OF x, of "[LF]"] x show ?thesis by blast
qed

lemma newline_out_append: "newline_out e (a @ b) = newline_out e a @ newline_out e b"
  by (simp add: newline_out_def)

lemma newline_out_Nil [simp]: "newline_out e [] = []"
  by (simp add: newline_out_def)

lemma newline_out_Cons:
  "newline_out e (c # s) = (if c = LF then linesep e else [c]) @ newline_out e s"
  by (simp add: newline_out_def)

lemma write_chunks_ok:
  "fst (write_chunks e cs acc) \<longleftrightarrow> list_all (list_all (encodable e)) cs"
  by (induction cs arbitrary: acc) (auto simp: write_text_def)

lemma write_chunks_content:
  "fst (write_chunks e cs acc) \<Longrightarrow> snd (write_chunks e cs acc) = acc @ newline_out e (concat cs)"
  by (induction cs arbitrary: acc) (auto simp: write_text_def newline_out_append split: if_splits)

lemma universal_newlines_Cons: "c \<noteq> CR \<Longrightarrow> universal_newlines (c # s) = c # universal_newlines s"
  by (cases s) auto

lemma universal_newlines_CRLF: "universal_newlines (CR # LF # s) = LF # universal_newlines s"
  by simp

lemma CR_neq_LF: "CR \<noteq> LF" "LF \<noteq> CR"
  by (simp_all add: CR_def LF_def)

lemma read_write_newlines:
  assumes "linesep e = [LF] \<or> linesep e = [CR, LF]" and "CR \<notin> set s"
  shows "universal_newlines (newline_out e s) = s"
  using assms(2)
proof (induction s)
  case Nil
  then show ?case by simp
next
  case (Cons c s)
  then have ih: "universal_newlines (newline_out e s) = s" and c: "c \<noteq> CR" by auto
  note no = newline_out_Cons
  show ?case
  proof (cases "c = LF")
    case True
    from assms(1) show ?thesis
    proof
      assume "linesep e = [LF]"
      then show ?thesis using True ih CR_neq_LF by (simp add: no universal_newlines_Cons)
    next
      assume "linesep e = [CR, LF]"
      then show ?thesis using True ih by (simp add: no)
    qed
  next
    case False
    then show ?thesis using c ih by (simp add: no universal_newlines_Cons)
  qed
qed

lemma save_to_readme_ok:
  "fst (save_to_readme e fs M) \<longleftrightarrow>
     can_write e ''readme.md'' \<and>
     list_all (encodable e)
       (str ''## Mermaid Diagram\<newline>'' @ str ''```mermaid\<newline>'' @ M @ str ''\<newline>```\<newline>'')"
  using write_chunks_ok [of e "[str ''## Mermaid Diagram\<newline>'', str ''```mermaid\<newline>'', M, str ''\<newline>```\<newline>'']" "[]"]
  by (auto simp: save_to_readme_def split: prod.splits)

lemma save_to_readme_content:
  "fst (save_to_readme e fs M) \<Longrightarrow>
     snd (save_to_readme e fs M) =
       fs(''readme.md'' \<mapsto>
          newline_out e (str ''## Mermaid Diagram\<newline>'' @ str ''```mermaid\<newline>'' @ M @ str ''\<newline>```\<newline>''))"
  using write_chunks_content [of e "[str ''## Mermaid Diagram\<newline>'', str ''```mermaid\<newline>'', M, str ''\<newline>```\<newline>'']" "[]"]
  by (auto simp: save_to_readme_def split: prod.splits if_splits)

lemma newline_out_posix: "linesep e = [LF] \<Longrightarrow> newline_out e s = s"
  by (induction s) (simp_all add: newline_out_Cons)

lemma header_no_fence:
  "\<not> sublist fence_mermaid (str ''## Mermaid Diagram\<newline>'' @ butlast fence_mermaid)"
  by (simp add: ev)

lemma document_shape:
  "str ''## Mermaid Diagram\<newline>'' @ str ''```mermaid\<newline>'' @ M @ str ''\<newline>```\<newline>''
     = str ''## Mermaid Diagram\<newline>'' @ fence_mermaid @ (LF # M @ [LF]) @ fence @ [LF]"
  by (simp add: str_def fence_def fence_mermaid_def LF_def)

lemma document_no_CR:
  "CR \<notin> set M \<Longrightarrow>
     CR \<notin> set (str ''## Mermaid Diagram\<newline>'' @ str ''```mermaid\<newline>'' @ M @ str ''\<newline>```\<newline>'')"
  by (simp add: str_def CR_def)

section \<open>Claims about the writer\<close>

text \<open>
  C3, amended. \<open>save_to_readme\<close> succeeds exactly when \<open>readme.md\<close> can be opened for
  writing and every character of the text can be encoded. When it succeeds, it has replaced
  the file by exactly this text, written in text mode (each line feed stored as the
  platform's line separator, so unchanged where that is a line feed): the heading line
  \<open>## Mermaid Diagram\<close>, the opening fence line, the markup as it is, a line feed and the
  closing fence line. The header, the part before the opening fence, is that one heading
  line. When the file cannot be opened, nothing is written and failure is reported.
\<close>
theorem save_to_readme_document:
  "(fst (save_to_readme e fs M) \<longrightarrow>
      snd (save_to_readme e fs M) =
        fs(''readme.md'' \<mapsto>
           newline_out e (str ''## Mermaid Diagram\<newline>'' @ str ''```mermaid\<newline>'' @ M @ str ''\<newline>```\<newline>''))) \<and>
   (fst (save_to_readme e fs M) \<longleftrightarrow>
      can_write e ''readme.md'' \<and>
      list_all (encodable e)
        (str ''## Mermaid Diagram\<newline>'' @ str ''```mermaid\<newline>'' @ M @ str ''\<newline>```\<newline>'')) \<and>
   (\<not> can_write e ''readme.md'' \<longrightarrow> save_to_readme e fs M = (False, fs)) \<and>
   (linesep e = [LF] \<longrightarrow>
      newline_out e (str ''## Mermaid Diagram\<newline>'' @ str ''```mermaid\<newline>'' @ M @ str ''\<newline>```\<newline>'')
        = str ''## Mermaid Diagram\<newline>'' @ str ''```mermaid\<newline>'' @ M @ str ''\<newline>```\<newline>'') \<and>
   spec_header (str ''## Mermaid Diagram\<newline>'' @ str ''```mermaid\<newline>'' @ M @ str ''\<newline>```\<newline>'')
     = str ''## Mermaid Diagram\<newline>'' \<and>
   line_count (str ''## Mermaid Diagram\<newline>'') = 1"
proof -
  have "lazy_until fence_mermaid
          (str ''## Mermaid Diagram\<newline>'' @ fence_mermaid @ ((LF # M @ [LF]) @ fence @ [LF]))
        = Some (str ''## Mermaid Diagram\<newline>'', (LF # M @ [LF]) @ fence @ [LF])"
    using header_no_fence by (intro lazy_until_complete) simp_all
  then have h: "spec_header (str ''## Mermaid Diagram\<newline>'' @ str ''```mermaid\<newline>'' @ M @ str ''\<newline>```\<newline>'')
       = str ''## Mermaid Diagram\<newline>''"
    unfolding document_shape by (simp add: spec_header_def)
  have l: "line_count (str ''## Mermaid Diagram\<newline>'') = 1"
    by (simp add: line_count_def str_def LF_def)
  have n: "\<not> can_write e ''readme.md'' \<longrightarrow> save_to_readme e fs M = (False, fs)"
    by (simp add: save_to_readme_def)
  show ?thesis
    using h l n save_to_readme_content [of e fs M] save_to_readme_ok [of e fs M]
      newline_out_posix [of e]
    by blast
qed

theorem save_to_readme_document_witness:
  "fst (save_to_readme (posix_env (Inl UpstreamError) None) Map.empty (str ''graph TD'')) \<and>
   snd (save_to_readme (posix_env (Inl UpstreamError) None) Map.empty (str ''graph TD''))
     = [''readme.md'' \<mapsto> str ''## Mermaid Diagram\<newline>```mermaid\<newline>graph TD\<newline>```\<newline>''] \<and>
   save_to_readme ((posix_env (Inl UpstreamError) None)\<lparr>can_write := (\<lambda>p. False)\<rparr>)
       [''readme.md'' \<mapsto> str ''old''] (str ''graph TD'')
     = (False, [''readme.md'' \<mapsto> str ''old''])"
proof -
  let ?e = "posix_env (Inl UpstreamError) None"
  have ok: "can_write ?e ''readme.md'' \<and>
      list_all (encodable ?e)
        (str ''## Mermaid Diagram\<newline>'' @ str ''```mermaid\<newline>'' @ str ''graph TD'' @ str ''\<newline>```\<newline>'')"
    by (simp add: posix_env_def list_all_iff utf8_encodable_def str_def)
  have ls: "linesep ?e = [LF]" by (simp add: posix_env_def)
  have nw: "\<not> can_write (?e\<lparr>can_write := (\<lambda>p. False)\<rparr>) ''readme.md''" by simp
  have eq: "str ''## Mermaid Diagram\<newline>'' @ str ''```mermaid\<newline>'' @ str ''graph TD'' @ str ''\<newline>```\<newline>''
      = str ''## Mermaid Diagram\<newline>```mermaid\<newline>graph TD\<newline>```\<newline>''"
    by (simp add: str_def)
  from save_to_readme_document [of ?e Map.empty "str ''graph TD''"] ok ls
  have 1: "fst (save_to_readme ?e Map.empty (str ''graph TD''))"
    and 2: "snd (save_to_readme ?e Map.empty (str ''graph TD'')) =
        Map.empty(''readme.md'' \<mapsto>
           str ''## Mermaid Diagram\<newline>'' @ str ''```mermaid\<newline>'' @ str ''graph TD'' @ str ''\<newline>```\<newline>'')"
    by simp_all
  from save_to_readme_document
    [of "?e\<lparr>can_write := (\<lambda>p. False)\<rparr>" "[''readme.md'' \<mapsto> str ''old'']" "str ''graph TD''"] nw
  have 3: "save_to_readme (?e\<lparr>can_write := (\<lambda>p. False)\<rparr>)
       [''readme.md'' \<mapsto> str ''old''] (str ''graph TD'')
     = (False, [''readme.md'' \<mapsto> str ''old''])" by blast
  from 1 2 3 show ?thesis unfolding eq by simp
qed

theorem save_to_readme_header_counterexample:
  "snd (save_to_readme (posix_env (Inl UpstreamError) None) Map.empty (str ''graph TD'')) ''readme.md''
     = Some (str ''## Mermaid Diagram\<newline>```mermaid\<newline>graph TD\<newline>```\<newline>'') \<and>
   spec_header (str ''## Mermaid Diagram\<newline>```mermaid\<newline>graph TD\<newline>```\<newline>'')
     = str ''## Mermaid Diagram\<newline>'' \<and>
   line_count (spec_header (str ''## Mermaid Diagram\<newline>```mermaid\<newline>graph TD\<newline>```\<newline>'')) \<noteq> 2 \<and>
   save_to_readme ((posix_env (Inl UpstreamError) None)\<lparr>can_write := (\<lambda>p. False)\<rparr>) Map.empty (str ''graph TD'')
     = (False, Map.empty)"
  by (simp add: save_to_readme_def write_text_def newline_out_def posix_env_def spec_header_def
      line_count_def str_def fence_mermaid_def LF_def utf8_encodable_def)

text \<open>
  C2, amended. When the write succeeds on a platform whose line separator is \<open>\n\<close> or
  \<open>\r\n\<close> and whose codec gives back every character of the written text as it was, and
  the markup is its own trim, holds no fence and no carriage return, reading the document
  back and extracting again yields the markup unchanged.
\<close>
theorem save_then_read_back:
  assumes "fst (save_to_readme e fs M)"
    and "linesep e = [LF] \<or> linesep e = [CR, LF]"
    and "round_trips e (newline_out e
           (str ''## Mermaid Diagram\<newline>'' @ str ''```mermaid\<newline>'' @ M @ str ''\<newline>```\<newline>''))"
    and "strip M = M" and "\<not> sublist fence M" and "CR \<notin> set M"
  shows "read_back e (snd (save_to_readme e fs M)) = Some M"
proof -
  let ?doc = "str ''## Mermaid Diagram\<newline>'' @ str ''```mermaid\<newline>'' @ M @ str ''\<newline>```\<newline>''"
  have "snd (save_to_readme e fs M) ''readme.md'' = Some (newline_out e ?doc)"
    using save_to_readme_content [OF assms(1)] by simp
  moreover have "map (recode e) (newline_out e ?doc) = newline_out e ?doc"
    using assms(3) by (simp add: round_trips_def list_all_iff map_idI)
  moreover have "universal_newlines (newline_out e ?doc) = ?doc"
    using assms(2) document_no_CR [OF assms(6)] by (rule read_write_newlines)
  moreover have "extract_mermaid_code ?doc = Some M"
    unfolding document_shape
    using header_no_fence assms(5) assms(4) by (rule extract_wrapped)
  ultimately show ?thesis by (simp add: read_back_def read_text_def)
qed

theorem save_then_read_back_witness:
  "read_back (posix_env (Inl UpstreamError) None)
      (snd (save_to_readme (posix_env (Inl UpstreamError) None) Map.empty (str ''graph TD; A-->B'')))
     = Some (str ''graph TD; A-->B'')"
proof -
  have "fst (save_to_readme (posix_env (Inl UpstreamError) None) Map.empty (str ''graph TD; A-->B''))"
    by (simp add: save_to_readme_ok posix_env_def list_all_iff utf8_encodable_def str_def)
  moreover have "linesep (posix_env (Inl UpstreamError) None) = [LF]
      \<or> linesep (posix_env (Inl UpstreamError) None) = [CR, LF]"
    by (simp add: posix_env_def)
  moreover have "round_trips (posix_env (Inl UpstreamError) None)
      (newline_out (posix_env (Inl UpstreamError) None)
         (str ''## Mermaid Diagram\<newline>'' @ str ''```mermaid\<newline>'' @ str ''graph TD; A-->B''
            @ str ''\<newline>```\<newline>''))"
    by (simp add: round_trips_def posix_env_def list_all_iff)
  moreover have "strip (str ''graph TD; A-->B'') = str ''graph TD; A-->B''" by (simp add: ev)
  moreover have "\<not> sublist fence (str ''graph TD; A-->B'')" by (simp add: ev)
  moreover have "CR \<notin> set (str ''graph TD; A-->B'')" by (simp add: str_def CR_def)
  ultimately show ?thesis by (rule save_then_read_back)
qed

lemmas ev2 = read_back_def read_text_def save_to_readme_def write_text_def newline_out_def
  posix_env_def extract_mermaid_code_def match_at_def LF_def CR_def utf8_encodable_def

theorem save_then_read_back_counterexample:
  "read_back (posix_env (Inl UpstreamError) None)
      (snd (save_to_readme (posix_env (Inl UpstreamError) None) Map.empty (str '' graph TD'')))
     = Some (str ''graph TD'') \<and>
   str ''graph TD'' \<noteq> str '' graph TD'' \<and>
   read_back (posix_env (Inl UpstreamError) None)
      (snd (save_to_readme (posix_env (Inl UpstreamError) None) Map.empty (str ''A[```] --> B'')))
     = Some (str ''A['') \<and>
   str ''A['' \<noteq> str ''A[```] --> B'' \<and>
   read_back (posix_env (Inl UpstreamError) None)
      (snd (save_to_readme (posix_env (Inl UpstreamError) None) Map.empty
              (str ''graph TD'' @ [CR, LF] @ str ''A --> B'')))
     = Some (str ''graph TD'' @ [LF] @ str ''A --> B'') \<and>
   str ''graph TD'' @ [LF] @ str ''A --> B'' \<noteq> str ''graph TD'' @ [CR, LF] @ str ''A --> B'' \<and>
   read_back ((posix_env (Inl UpstreamError) None)\<lparr>recode := (\<lambda>c. if c = 162 then 65504 else c)\<rparr>)
      (snd (save_to_readme
              ((posix_env (Inl UpstreamError) None)\<lparr>recode := (\<lambda>c. if c = 162 then 65504 else c)\<rparr>)
              Map.empty (str ''A['' @ [162] @ str '']'')))
     = Some (str ''A['' @ [65504] @ str '']'') \<and>
   str ''A['' @ [65504] @ str '']'' \<noteq> str ''A['' @ [162] @ str '']''"
  by (simp add: ev2 ev)

lemma lt_notin_escape: "60 \<notin> set (escape s)"
  by (induction s) (auto simp: escape_def escape_char_def str_def)

lemma sublist_skip_segment:
  "c \<notin> set m \<Longrightarrow> sublist (c # p) (m @ s) \<longleftrightarrow> sublist (c # p) s"
  by (induction m) (auto simp: sublist_Cons_right)

lemma img_skip_escape: "sublist img_tag (escape c @ s) \<longleftrightarrow> sublist img_tag s"
proof -
  obtain p where p: "img_tag = 60 # p" by (simp add: img_tag_def str_def)
  show ?thesis unfolding p by (rule sublist_skip_segment [OF lt_notin_escape])
qed

lemma img_skip_head: "sublist img_tag (tpl_head @ s) \<longleftrightarrow> sublist img_tag s"
  by (simp add: tpl_head_def img_tag_def str_def sublist_Cons_right)

lemma img_skip_code_open: "sublist img_tag (tpl_code_open @ s) \<longleftrightarrow> sublist img_tag s"
  by (simp add: tpl_code_open_def img_tag_def str_def sublist_Cons_right)

lemma img_skip_code_close: "sublist img_tag (tpl_code_close @ s) \<longleftrightarrow> sublist img_tag s"
  by (simp add: tpl_code_close_def img_tag_def str_def sublist_Cons_right)

lemma img_skip_between: "sublist img_tag (tpl_between @ s) \<longleftrightarrow> sublist img_tag s"
  by (simp add: tpl_between_def img_tag_def str_def sublist_Cons_right)

lemma img_not_in_tail: "\<not> sublist img_tag tpl_tail"
  by (simp add: tpl_tail_def img_tag_def str_def sublist_Cons_right)

lemma img_in_page: "sublist img_tag (render_template code png) \<longleftrightarrow> png"
proof (cases png)
  case True
  have "sublist img_tag (tpl_png_open @ img_tag @ tpl_png_close @ tpl_tail)"
    by (rule sublist_appendI)
  then show ?thesis using True
    by (simp add: render_template_def img_skip_head img_skip_code_open img_skip_escape
        img_skip_code_close img_skip_between)
next
  case False
  then show ?thesis
    by (simp add: render_template_def img_skip_head img_skip_code_open img_skip_escape
        img_skip_code_close img_skip_between img_not_in_tail)
qed

lemma py_truthy_dict_key: "map_of kvs k = Some v \<Longrightarrow> py_truthy (PDict kvs)"
  by (cases kvs) auto

lemma mermaid_endpoint_dict:
  "map_of kvs (str ''project_description'') = Some d \<Longrightarrow>
     mermaid_endpoint e fs (PDict kvs) =
       (case mermaid_pipeline e fs d of
          (Inl err, fs', st) \<Rightarrow> \<lparr>reply = Inl err, files_after = fs', stages = st\<rparr>
        | (Inr (mermaid_code, png_available), fs', st) \<Rightarrow>
            \<lparr>reply = Inr \<lparr>status = 200, mimetype = Some ''text/html'',
                           payload = Text (render_template mermaid_code png_available)\<rparr>,
             files_after = fs', stages = st\<rparr>)"
  using py_truthy_dict_key [of kvs "str ''project_description''" d]
  by (simp add: mermaid_endpoint_def)

lemma render_template_escaped:
  "code \<noteq> [] \<Longrightarrow> sublist (escape code) (render_template code png)"
  unfolding render_template_def
  by (simp only: if_True simp_thms append_assoc)
    (rule sublist_append_left, rule sublist_append_left, rule sublist_append_rightI)

lemma mermaid_pipeline_stages_hd: "hd (snd (snd (mermaid_pipeline e fs d))) = Generating"
  by (simp add: mermaid_pipeline_def split: pyval.splits option.splits prod.splits)

lemma utf8_escape: "list_all utf8_encodable s \<Longrightarrow> list_all utf8_encodable (escape s)"
  by (induction s) (auto simp: escape_def escape_char_def str_def utf8_encodable_def)

lemma utf8_template:
  "list_all utf8_encodable tpl_head" "list_all utf8_encodable tpl_code_open"
  "list_all utf8_encodable tpl_code_close" "list_all utf8_encodable tpl_between"
  "list_all utf8_encodable tpl_png_open" "list_all utf8_encodable tpl_png_close"
  "list_all utf8_encodable tpl_tail" "list_all utf8_encodable img_tag"
  by (simp_all add: tpl_head_def tpl_code_open_def tpl_code_close_def tpl_between_def
      tpl_png_open_def tpl_png_close_def tpl_tail_def img_tag_def str_def utf8_encodable_def)

lemma utf8_page:
  "list_all utf8_encodable code \<Longrightarrow> list_all utf8_encodable (render_template code png)"
  using utf8_escape [of code] by (simp add: render_template_def utf8_template)

lemma utf8_messages:
  "list_all utf8_encodable failed_message" "list_all utf8_encodable not_found_message"
  by (simp_all add: failed_message_def not_found_message_def str_def utf8_encodable_def)

lemma mermaid_endpoint_dict_status:
  assumes "map_of kvs (str ''project_description'') = Some d"
  shows "http_status (mermaid_endpoint e fs (PDict kvs)) = 200 \<or>
         http_status (mermaid_endpoint e fs (PDict kvs)) = 500"
  unfolding mermaid_endpoint_dict [OF assms]
  by (auto simp: http_status_def split: prod.splits sum.splits)

lemma mermaid_endpoint_dict_reply:
  assumes "map_of kvs (str ''project_description'') = Some d"
  shows "reply (mermaid_endpoint e fs (PDict kvs)) \<noteq> Inr bad_request"
  unfolding mermaid_endpoint_dict [OF assms]
  by (auto simp: bad_request_def split: prod.splits sum.splits)

section \<open>Claims about the HTTP service layer\<close>

text \<open>
  C4, amended. When the request body is a falsy value (\<open>null\<close>, \<open>{}\<close>, an empty list or
  string, zero, \<open>false\<close>) or a dictionary, list or string in which \<open>project_description\<close>
  is not found, the handler answers at once with status 400 and the body
  \<open>{"error": ...}\<close>, entering no stage and leaving the files as they are. A dictionary that
  has the key is never answered with 400, whatever the value of the key, the empty string
  too: the handler goes on to call the generator.
\<close>
theorem mermaid_endpoint_bad_request:
  "(\<not> py_truthy data \<or> py_in (str ''project_description'') data = Inr False \<longrightarrow>
      mermaid_endpoint e fs data = \<lparr>reply = Inr bad_request, files_after = fs, stages = []\<rparr>) \<and>
   status bad_request = 400 \<and>
   payload bad_request =
     Json [(str ''error'', str ''JSON payload with 'project_description' key required.'')] \<and>
   (map_of kvs (str ''project_description'') = Some d \<longrightarrow>
      reply (mermaid_endpoint e fs (PDict kvs)) \<noteq> Inr bad_request \<and>
      http_status (mermaid_endpoint e fs (PDict kvs)) \<noteq> 400 \<and>
      hd (stages (mermaid_endpoint e fs (PDict kvs))) = Generating)"
proof (intro conjI impI)
  assume "\<not> py_truthy data \<or> py_in (str ''project_description'') data = Inr False"
  then show "mermaid_endpoint e fs data = \<lparr>reply = Inr bad_request, files_after = fs, stages = []\<rparr>"
    by (auto simp: mermaid_endpoint_def)
next
  show "status bad_request = 400" by (simp add: bad_request_def)
next
  show "payload bad_request =
     Json [(str ''error'', str ''JSON payload with 'project_description' key required.'')]"
    by (simp add: bad_request_def)
next
  assume k: "map_of kvs (str ''project_description'') = Some d"
  show "reply (mermaid_endpoint e fs (PDict kvs)) \<noteq> Inr bad_request"
    using k by (rule mermaid_endpoint_dict_reply)
  show "http_status (mermaid_endpoint e fs (PDict kvs)) \<noteq> 400"
    using mermaid_endpoint_dict_status [OF k, of e fs] by auto
  show "hd (stages (mermaid_endpoint e fs (PDict kvs))) = Generating"
    unfolding mermaid_endpoint_dict [OF k] using mermaid_pipeline_stages_hd [of e fs d]
    by (auto split: prod.splits sum.splits)
qed

theorem mermaid_endpoint_bad_request_witness:
  "mermaid_endpoint (posix_env (Inr (PStr (str ''x''))) None) Map.empty (PDict [])
     = \<lparr>reply = Inr bad_request, files_after = Map.empty, stages = []\<rparr> \<and>
   mermaid_endpoint (posix_env (Inr (PStr (str ''x''))) None) Map.empty
       (PDict [(str ''description'', PStr (str ''a todo app''))])
     = \<lparr>reply = Inr bad_request, files_after = Map.empty, stages = []\<rparr> \<and>
   http_status (mermaid_endpoint (posix_env (Inr (PStr (str ''x''))) None) Map.empty
       (PDict [(str ''project_description'', PStr (str ''a todo app''))])) \<noteq> 400 \<and>
   hd (stages (mermaid_endpoint (posix_env (Inr (PStr (str ''x''))) None) Map.empty
       (PDict [(str ''project_description'', PStr (str ''a todo app''))]))) = Generating"
proof -
  have a: "\<not> py_truthy (PDict [])" by simp
  have b: "py_in (str ''project_description'') (PDict [(str ''description'', PStr (str ''a todo app''))]) = Inr False"
    by (simp add: str_def)
  have c: "map_of [(str ''project_description'', PStr (str ''a todo app''))] (str ''project_description'')
      = Some (PStr (str ''a todo app''))" by simp
  from a b c
    mermaid_endpoint_bad_request [of "PDict []" "posix_env (Inr (PStr (str ''x''))) None" Map.empty]
    mermaid_endpoint_bad_request [of "PDict [(str ''description'', PStr (str ''a todo app''))]"
       "posix_env (Inr (PStr (str ''x''))) None" Map.empty
       "[(str ''project_description'', PStr (str ''a todo app''))]" "PStr (str ''a todo app'')"]
  show ?thesis by blast
qed

theorem mermaid_endpoint_bad_request_counterexample:
  "http_status (mermaid_endpoint (posix_env (Inl UpstreamError) None) Map.empty
       (PDict [(str ''project_description'', PStr [])])) = 200 \<and>
   stages (mermaid_endpoint (posix_env (Inl UpstreamError) None) Map.empty
       (PDict [(str ''project_description'', PStr [])])) = [Generating] \<and>
   http_status (mermaid_endpoint (posix_env (Inl UpstreamError) None) Map.empty (PInt 5)) = 500"
proof -
  have k: "map_of [(str ''project_description'', PStr [])] (str ''project_description'') = Some (PStr [])"
    by simp
  have p: "mermaid_pipeline (posix_env (Inl UpstreamError) None) Map.empty (PStr [])
      = (Inr (failed_message, False), Map.empty, [Generating])"
    by (simp add: mermaid_pipeline_def generate_mermaid_code_def posix_env_def)
  have "http_status (mermaid_endpoint (posix_env (Inl UpstreamError) None) Map.empty (PInt 5)) = 500"
    by (simp add: mermaid_endpoint_def http_status_def)
  then show ?thesis
    unfolding mermaid_endpoint_dict [OF k] p
    using utf8_page [OF utf8_messages(1), of False] by (simp add: http_status_def)
qed

text \<open>
  C5. When the body is a dictionary with the key and the model call raises, the handler
  answers with status 200, never 500; the template variable for the diagram is the fixed
  failure message, which the page shows, without an image tag; only the generating stage
  was entered and the files are as before.
\<close>
theorem mermaid_endpoint_generator_failure:
  assumes "map_of kvs (str ''project_description'') = Some d"
    and "llm_invoke e d = Inl err"
  shows "mermaid_endpoint e fs (PDict kvs) =
           \<lparr>reply = Inr \<lparr>status = 200, mimetype = Some ''text/html'',
                          payload = Text (render_template failed_message False)\<rparr>,
            files_after = fs, stages = [Generating]\<rparr> \<and>
         http_status (mermaid_endpoint e fs (PDict kvs)) = 200 \<and>
         fst (mermaid_pipeline e fs d) = Inr (failed_message, False) \<and>
         sublist failed_message (render_template failed_message False) \<and>
         \<not> sublist img_tag (render_template failed_message False)"
proof -
  have p: "mermaid_pipeline e fs d = (Inr (failed_message, False), fs, [Generating])"
    using assms(2) by (simp add: mermaid_pipeline_def generate_mermaid_code_def)
  have r: "mermaid_endpoint e fs (PDict kvs) =
           \<lparr>reply = Inr \<lparr>status = 200, mimetype = Some ''text/html'',
                          payload = Text (render_template failed_message False)\<rparr>,
            files_after = fs, stages = [Generating]\<rparr>"
    unfolding mermaid_endpoint_dict [OF assms(1)] p by simp
  then have s: "http_status (mermaid_endpoint e fs (PDict kvs)) = 200"
    using utf8_page [OF utf8_messages(1), of False] by (simp add: http_status_def)
  have ne: "failed_message \<noteq> []" by (simp add: failed_message_def str_def)
  have esc: "escape failed_message = failed_message"
    by (simp add: failed_message_def escape_def escape_char_def str_def)
  have c: "sublist failed_message (render_template failed_message False)"
    using render_template_escaped [OF ne, of False] esc by simp
  show ?thesis using p r s c img_in_page [of failed_message False] by simp
qed

theorem mermaid_endpoint_generator_failure_witness:
  "mermaid_endpoint (posix_env (Inl UpstreamError) None) Map.empty
       (PDict [(str ''project_description'', PStr (str ''a todo app''))]) =
     \<lparr>reply = Inr \<lparr>status = 200, mimetype = Some ''text/html'',
                    payload = Text (render_template failed_message False)\<rparr>,
      files_after = Map.empty, stages = [Generating]\<rparr> \<and>
   http_status (mermaid_endpoint (posix_env (Inl UpstreamError) None) Map.empty
       (PDict [(str ''project_description'', PStr (str ''a todo app''))])) = 200"
proof -
  have k: "map_of [(str ''project_description'', PStr (str ''a todo app''))] (str ''project_description'')
      = Some (PStr (str ''a todo app''))" by simp
  have l: "llm_invoke (posix_env (Inl UpstreamError) None) (PStr (str ''a todo app'')) = Inl UpstreamError"
    by (simp add: posix_env_def)
  from mermaid_endpoint_generator_failure [OF k l, of Map.empty] show ?thesis by blast
qed

lemmas ev3 = mermaid_endpoint_def mermaid_pipeline_def generate_mermaid_code_def posix_env_def
  convert_readme_to_png_def convert_body_def html_content_def list_all_iff

lemma get_png_lookup:
  "(fs (app_root e @ ''mermaid_diagram.png'') = Some content \<longrightarrow>
      get_png e fs = \<lparr>status = 200, mimetype = Some ''image/png'', payload = FileContent content\<rparr>) \<and>
   (fs (app_root e @ ''mermaid_diagram.png'') = None \<longrightarrow>
      get_png e fs = \<lparr>status = 404, mimetype = None, payload = Text (str ''PNG image not found.'')\<rparr>)"
  by (simp add: get_png_def)

lemma get_png_in_working_directory:
  "app_root e = [] \<Longrightarrow>
     get_png e fs =
       (case fs ''mermaid_diagram.png'' of
          Some content \<Rightarrow> \<lparr>status = 200, mimetype = Some ''image/png'', payload = FileContent content\<rparr>
        | None \<Rightarrow> \<lparr>status = 404, mimetype = None, payload = Text (str ''PNG image not found.'')\<rparr>)"
  by (simp add: get_png_def)

text \<open>
  C8. The claim: \<open>get_png\<close> returns the Rendered Image when it exists, and 404 when it does
  not. The code serves the file of that name in the application's root directory, while
  the renderer writes the Rendered Image into the working directory. Here the server was
  started in a directory that is not the application's root (\<open>app/\<close>, seen from there), a
  request has just rendered a picture and shows it in its page, and \<open>get_png\<close> answers 404.
\<close>
theorem get_png_misses_rendered_image:
  "files_after (mermaid_endpoint
      ((posix_env (Inr (PStr (str ''```mermaid\<newline>graph TD; A --- B\<newline>```''))) (Some [137, 80, 78, 71]))
         \<lparr>app_root := ''app/''\<rparr>)
      Map.empty (PDict [(str ''project_description'', PStr (str ''a todo app''))]))
     ''mermaid_diagram.png'' = Some [137, 80, 78, 71] \<and>
   reply (mermaid_endpoint
      ((posix_env (Inr (PStr (str ''```mermaid\<newline>graph TD; A --- B\<newline>```''))) (Some [137, 80, 78, 71]))
         \<lparr>app_root := ''app/''\<rparr>)
      Map.empty (PDict [(str ''project_description'', PStr (str ''a todo app''))]))
     = Inr \<lparr>status = 200, mimetype = Some ''text/html'',
             payload = Text (render_template (str ''graph TD; A --- B'') True)\<rparr> \<and>
   get_png
      ((posix_env (Inr (PStr (str ''```mermaid\<newline>graph TD; A --- B\<newline>```''))) (Some [137, 80, 78, 71]))
         \<lparr>app_root := ''app/''\<rparr>)
      (files_after (mermaid_endpoint
         ((posix_env (Inr (PStr (str ''```mermaid\<newline>graph TD; A --- B\<newline>```''))) (Some [137, 80, 78, 71]))
            \<lparr>app_root := ''app/''\<rparr>)
         Map.empty (PDict [(str ''project_description'', PStr (str ''a todo app''))])))
     = \<lparr>status = 404, mimetype = None, payload = Text (str ''PNG image not found.'')\<rparr>"
  by (simp add: get_png_def ev3 ev2 ev)

text \<open>
  C9. When the first fenced block of the model's reply has an interior that trims to the
  empty text, the handler answers as it does for a reply without a block: status 200, the
  fixed not-found message as the diagram text, the files untouched and neither the writing
  nor the rendering stage entered. The diagram text passed to the template is never empty.
\<close>
theorem mermaid_endpoint_empty_block:
  "(map_of kvs (str ''project_description'') = Some d \<and> llm_invoke e d = Inr (PStr answer) \<and>
    spec_first_fenced_block answer pre interior post \<and> strip interior = [] \<longrightarrow>
      mermaid_endpoint e fs (PDict kvs) =
        \<lparr>reply = Inr \<lparr>status = 200, mimetype = Some ''text/html'',
                       payload = Text (render_template not_found_message False)\<rparr>,
         files_after = fs, stages = [Generating, Extracting]\<rparr> \<and>
      http_status (mermaid_endpoint e fs (PDict kvs)) = 200) \<and>
   (map_of kvs (str ''project_description'') = Some d \<and> llm_invoke e d = Inr (PStr answer) \<and>
    answer \<noteq> [] \<and> extract_mermaid_code answer = None \<longrightarrow>
      mermaid_endpoint e fs (PDict kvs) =
        \<lparr>reply = Inr \<lparr>status = 200, mimetype = Some ''text/html'',
                       payload = Text (render_template not_found_message False)\<rparr>,
         files_after = fs, stages = [Generating, Extracting]\<rparr>) \<and>
   (fst (mermaid_pipeline e fs d) = Inr (code, png) \<longrightarrow> code \<noteq> [])"
proof (intro conjI impI)
  assume a: "map_of kvs (str ''project_description'') = Some d \<and> llm_invoke e d = Inr (PStr answer) \<and>
    spec_first_fenced_block answer pre interior post \<and> strip interior = []"
  then have rs: "re_search answer = Some interior"
    using re_search_Some_iff [of answer interior] by blast
  then have "answer \<noteq> []" by (auto simp: match_at_def)
  moreover from a rs have "extract_mermaid_code answer = Some []"
    by (simp add: extract_mermaid_code_def)
  ultimately have "mermaid_pipeline e fs d = (Inr (not_found_message, False), fs, [Generating, Extracting])"
    using a by (simp add: mermaid_pipeline_def generate_mermaid_code_def)
  then show r: "mermaid_endpoint e fs (PDict kvs) =
        \<lparr>reply = Inr \<lparr>status = 200, mimetype = Some ''text/html'',
                       payload = Text (render_template not_found_message False)\<rparr>,
         files_after = fs, stages = [Generating, Extracting]\<rparr>"
    using a by (simp add: mermaid_endpoint_dict)
  show "http_status (mermaid_endpoint e fs (PDict kvs)) = 200"
    unfolding r using utf8_page [OF utf8_messages(2), of False] by (simp add: http_status_def)
next
  assume a: "map_of kvs (str ''project_description'') = Some d \<and> llm_invoke e d = Inr (PStr answer) \<and>
    answer \<noteq> [] \<and> extract_mermaid_code answer = None"
  then have "mermaid_pipeline e fs d = (Inr (not_found_message, False), fs, [Generating, Extracting])"
    by (simp add: mermaid_pipeline_def generate_mermaid_code_def)
  then show "mermaid_endpoint e fs (PDict kvs) =
        \<lparr>reply = Inr \<lparr>status = 200, mimetype = Some ''text/html'',
                       payload = Text (render_template not_found_message False)\<rparr>,
         files_after = fs, stages = [Generating, Extracting]\<rparr>"
    using a by (simp add: mermaid_endpoint_dict)
next
  assume p: "fst (mermaid_pipeline e fs d) = Inr (code, png)"
  have "failed_message \<noteq> []" "not_found_message \<noteq> []"
    by (simp_all add: failed_message_def not_found_message_def str_def)
  then show "code \<noteq> []"
    using p by (auto simp: mermaid_pipeline_def split: pyval.splits option.splits prod.splits if_splits)
qed

theorem mermaid_endpoint_empty_block_witness:
  "mermaid_endpoint (posix_env (Inr (PStr (str ''Here: ```mermaid  \<newline> ``` done''))) (Some [137, 80, 78, 71]))
       Map.empty (PDict [(str ''project_description'', PStr (str ''a todo app''))]) =
     \<lparr>reply = Inr \<lparr>status = 200, mimetype = Some ''text/html'',
                    payload = Text (render_template not_found_message False)\<rparr>,
      files_after = Map.empty, stages = [Generating, Extracting]\<rparr> \<and>
   mermaid_endpoint (posix_env (Inr (PStr (str ''no diagram in this reply''))) (Some [137, 80, 78, 71]))
       Map.empty (PDict [(str ''project_description'', PStr (str ''a todo app''))]) =
     \<lparr>reply = Inr \<lparr>status = 200, mimetype = Some ''text/html'',
                    payload = Text (render_template not_found_message False)\<rparr>,
      files_after = Map.empty, stages = [Generating, Extracting]\<rparr>"
proof -
  let ?kvs = "[(str ''project_description'', PStr (str ''a todo app''))]"
  let ?d = "PStr (str ''a todo app'')"
  have k: "map_of ?kvs (str ''project_description'') = Some ?d" by simp
  have b: "spec_first_fenced_block (str ''Here: ```mermaid  \<newline> ``` done'')
      (str ''Here: '') (str ''  \<newline> '') (str '' done'')"
    by (simp add: spec_first_fenced_block_def ev)
  have s: "strip (str ''  \<newline> '') = []" by (simp add: ev)
  have l1: "llm_invoke (posix_env (Inr (PStr (str ''Here: ```mermaid  \<newline> ``` done''))) (Some [137, 80, 78, 71])) ?d
      = Inr (PStr (str ''Here: ```mermaid  \<newline> ``` done''))" by (simp add: posix_env_def)
  have l2: "llm_invoke (posix_env (Inr (PStr (str ''no diagram in this reply''))) (Some [137, 80, 78, 71])) ?d
      = Inr (PStr (str ''no diagram in this reply''))" by (simp add: posix_env_def)
  have n: "str ''no diagram in this reply'' \<noteq> []" by (simp add: str_def)
  have x: "extract_mermaid_code (str ''no diagram in this reply'') = None"
    by (simp add: extract_mermaid_code_def match_at_def ev)
  from mermaid_endpoint_empty_block
    [of ?kvs ?d "posix_env (Inr (PStr (str ''Here: ```mermaid  \<newline> ``` done''))) (Some [137, 80, 78, 71])"
        "str ''Here: ```mermaid  \<newline> ``` done''" "str ''Here: ''" "str ''  \<newline> ''" "str '' done''" Map.empty]
    k b s l1
  have "mermaid_endpoint (posix_env (Inr (PStr (str ''Here: ```mermaid  \<newline> ``` done''))) (Some [137, 80, 78, 71]))
       Map.empty (PDict ?kvs) =
     \<lparr>reply = Inr \<lparr>status = 200, mimetype = Some ''text/html'',
                    payload = Text (render_template not_found_message False)\<rparr>,
      files_after = Map.empty, stages = [Generating, Extracting]\<rparr>" by blast
  moreover from mermaid_endpoint_empty_block
    [of ?kvs ?d "posix_env (Inr (PStr (str ''no diagram in this reply''))) (Some [137, 80, 78, 71])"
        "str ''no diagram in this reply''" _ _ _ Map.empty]
    k l2 n x
  have "mermaid_endpoint (posix_env (Inr (PStr (str ''no diagram in this reply''))) (Some [137, 80, 78, 71]))
       Map.empty (PDict ?kvs) =
     \<lparr>reply = Inr \<lparr>status = 200, mimetype = Some ''text/html'',
                    payload = Text (render_template not_found_message False)\<rparr>,
      files_after = Map.empty, stages = [Generating, Extracting]\<rparr>" by blast
  ultimately show ?thesis by simp
qed

lemma escape_id: "set s \<inter> {34, 38, 39, 60, 62} = {} \<Longrightarrow> escape s = s"
  by (induction s) (auto simp: escape_def escape_char_def)

text \<open>
  C7, amended. When the body is a dictionary with the key and the model's reply is a
  string that holds a fenced block whose text has no lone surrogate, the handler answers
  with status 200 and an HTML page that contains the extracted text as
  \<open>markupsafe.escape\<close> writes it (the text itself when it has none of the characters
  \<open>& < > ' "\<close>), and the page contains the image tag exactly when the block is not empty
  and \<open>convert_readme_to_png\<close> reported success.
\<close>
theorem mermaid_endpoint_diagram:
  assumes "map_of kvs (str ''project_description'') = Some d"
    and "llm_invoke e d = Inr (PStr answer)"
    and "extract_mermaid_code answer = Some code"
    and "list_all utf8_encodable code"
  shows "http_status (mermaid_endpoint e fs (PDict kvs)) = 200 \<and>
         reply (mermaid_endpoint e fs (PDict kvs)) =
           Inr \<lparr>status = 200, mimetype = Some ''text/html'',
                 payload = Text (render_template
                    (if code = [] then not_found_message else code)
                    (code \<noteq> [] \<and> fst (convert_readme_to_png e ''readme.md'' ''mermaid_diagram.png''
                                         (snd (save_to_readme e fs code)))))\<rparr> \<and>
         sublist (escape code) (render_template
                    (if code = [] then not_found_message else code)
                    (code \<noteq> [] \<and> fst (convert_readme_to_png e ''readme.md'' ''mermaid_diagram.png''
                                         (snd (save_to_readme e fs code))))) \<and>
         (set code \<inter> {34, 38, 39, 60, 62} = {} \<longrightarrow>
            sublist code (render_template
                    (if code = [] then not_found_message else code)
                    (code \<noteq> [] \<and> fst (convert_readme_to_png e ''readme.md'' ''mermaid_diagram.png''
                                         (snd (save_to_readme e fs code)))))) \<and>
         (sublist img_tag (render_template
                    (if code = [] then not_found_message else code)
                    (code \<noteq> [] \<and> fst (convert_readme_to_png e ''readme.md'' ''mermaid_diagram.png''
                                         (snd (save_to_readme e fs code)))))
            \<longleftrightarrow> code \<noteq> [] \<and> fst (convert_readme_to_png e ''readme.md'' ''mermaid_diagram.png''
                                         (snd (save_to_readme e fs code))))"
proof -
  let ?png = "code \<noteq> [] \<and> fst (convert_readme_to_png e ''readme.md'' ''mermaid_diagram.png''
                                         (snd (save_to_readme e fs code)))"
  let ?shown = "if code = [] then not_found_message else code"
  from assms(3) have t: "answer \<noteq> []" by (auto simp: extract_mermaid_code_def match_at_def)
  have "fst (mermaid_pipeline e fs d) = Inr (?shown, ?png)"
    using assms(2,3) t
    by (simp add: mermaid_pipeline_def generate_mermaid_code_def split: prod.splits)
  then have r: "reply (mermaid_endpoint e fs (PDict kvs)) =
      Inr \<lparr>status = 200, mimetype = Some ''text/html'', payload = Text (render_template ?shown ?png)\<rparr>"
    unfolding mermaid_endpoint_dict [OF assms(1)] by (auto split: prod.splits sum.splits)
  have "list_all utf8_encodable ?shown" using assms(4) utf8_messages(2) by simp
  then have "list_all utf8_encodable (render_template ?shown ?png)" by (rule utf8_page)
  with r have s: "http_status (mermaid_endpoint e fs (PDict kvs)) = 200"
    by (simp add: http_status_def)
  have c: "sublist (escape code) (render_template ?shown ?png)"
  proof (cases "code = []")
    case True
    then show ?thesis by (simp add: escape_def)
  next
    case False
    then show ?thesis using render_template_escaped [of code ?png] by simp
  qed
  have "set code \<inter> {34, 38, 39, 60, 62} = {} \<longrightarrow> sublist code (render_template ?shown ?png)"
    using c escape_id [of code] by auto
  with r s c img_in_page [of ?shown ?png] show ?thesis by blast
qed

theorem mermaid_endpoint_diagram_counterexample:
  "reply (mermaid_endpoint
      (posix_env (Inr (PStr (str ''```mermaid\<newline>graph TD; A-->B\<newline>```''))) (Some [137, 80, 78, 71]))
      Map.empty (PDict [(str ''project_description'', PStr (str ''a todo app''))]))
     = Inr \<lparr>status = 200, mimetype = Some ''text/html'',
             payload = Text (render_template (str ''graph TD; A-->B'') True)\<rparr> \<and>
   \<not> sublist (str ''graph TD; A-->B'') (render_template (str ''graph TD; A-->B'') True) \<and>
   http_status (mermaid_endpoint
      (posix_env (Inr (PStr (str ''```mermaid\<newline>A'' @ [55296] @ str ''\<newline>```''))) (Some [137, 80, 78, 71]))
      Map.empty (PDict [(str ''project_description'', PStr (str ''a todo app''))])) = 500"
proof (intro conjI)
  show "reply (mermaid_endpoint
      (posix_env (Inr (PStr (str ''```mermaid\<newline>graph TD; A-->B\<newline>```''))) (Some [137, 80, 78, 71]))
      Map.empty (PDict [(str ''project_description'', PStr (str ''a todo app''))]))
     = Inr \<lparr>status = 200, mimetype = Some ''text/html'',
             payload = Text (render_template (str ''graph TD; A-->B'') True)\<rparr>"
    by (simp add: ev3 ev2 ev)
  show "\<not> sublist (str ''graph TD; A-->B'') (render_template (str ''graph TD; A-->B'') True)"
    by (simp add: render_template_def tpl_head_def tpl_code_open_def tpl_code_close_def
        tpl_between_def tpl_png_open_def tpl_png_close_def tpl_tail_def img_tag_def
        escape_def escape_char_def str_def sublist_Cons_right)
  have "reply (mermaid_endpoint
      (posix_env (Inr (PStr (str ''```mermaid\<newline>A'' @ [55296] @ str ''\<newline>```''))) (Some [137, 80, 78, 71]))
      Map.empty (PDict [(str ''project_description'', PStr (str ''a todo app''))]))
     = Inr \<lparr>status = 200, mimetype = Some ''text/html'',
             payload = Text (render_template (str ''A'' @ [55296]) False)\<rparr>"
    by (simp add: ev3 ev2 ev)
  moreover have "\<not> list_all utf8_encodable (render_template (str ''A'' @ [55296]) False)"
    by (simp add: render_template_def escape_def escape_char_def utf8_encodable_def)
  ultimately show "http_status (mermaid_endpoint
      (posix_env (Inr (PStr (str ''```mermaid\<newline>A'' @ [55296] @ str ''\<newline>```''))) (Some [137, 80, 78, 71]))
      Map.empty (PDict [(str ''project_description'', PStr (str ''a todo app''))])) = 500"
    by (simp add: http_status_def)
qed

theorem mermaid_endpoint_diagram_witness:
  "http_status (mermaid_endpoint
      (posix_env (Inr (PStr (str ''Sure: ```mermaid\<newline>graph TD; A --- B\<newline>```''))) (Some [137, 80, 78, 71]))
      Map.empty (PDict [(str ''project_description'', PStr (str ''a todo app''))])) = 200 \<and>
   reply (mermaid_endpoint
      (posix_env (Inr (PStr (str ''Sure: ```mermaid\<newline>graph TD; A --- B\<newline>```''))) (Some [137, 80, 78, 71]))
      Map.empty (PDict [(str ''project_description'', PStr (str ''a todo app''))]))
     = Inr \<lparr>status = 200, mimetype = Some ''text/html'',
             payload = Text (render_template (str ''graph TD; A --- B'') True)\<rparr> \<and>
   sublist (str ''graph TD; A --- B'') (render_template (str ''graph TD; A --- B'') True) \<and>
   sublist img_tag (render_template (str ''graph TD; A --- B'') True)"
proof -
  let ?e = "posix_env (Inr (PStr (str ''Sure: ```mermaid\<newline>graph TD; A --- B\<newline>```''))) (Some [137, 80, 78, 71])"
  let ?kvs = "[(str ''project_description'', PStr (str ''a todo app''))]"
  let ?d = "PStr (str ''a todo app'')"
  have k: "map_of ?kvs (str ''project_description'') = Some ?d" by simp
  have l: "llm_invoke ?e ?d = Inr (PStr (str ''Sure: ```mermaid\<newline>graph TD; A --- B\<newline>```''))"
    by (simp add: posix_env_def)
  have b: "extract_mermaid_code (str ''Sure: ```mermaid\<newline>graph TD; A --- B\<newline>```'')
      = Some (str ''graph TD; A --- B'')"
    by (simp add: extract_mermaid_code_def match_at_def ev)
  have u: "list_all utf8_encodable (str ''graph TD; A --- B'')"
    by (simp add: str_def utf8_encodable_def)
  have n: "str ''graph TD; A --- B'' \<noteq> []" by (simp add: str_def)
  have s: "set (str ''graph TD; A --- B'') \<inter> {34, 38, 39, 60, 62} = {}" by (simp add: str_def)
  have c: "fst (convert_readme_to_png ?e ''readme.md'' ''mermaid_diagram.png''
                 (snd (save_to_readme ?e Map.empty (str ''graph TD; A --- B''))))"
    by (simp add: ev3 ev2 ev)
  from mermaid_endpoint_diagram [OF k l b u, of Map.empty] n s c show ?thesis by simp
qed

section \<open>Claims about the renderer\<close>

text \<open>
  C6. \<open>convert_readme_to_png\<close> takes its markup from the document on disk: it succeeds
  exactly when \<open>imgkit.config\<close> accepts the executable, the document exists, the extractor
  finds a non-empty block in what is read from it, the temporary page can be written and the
  renderer produces a picture of that page. It reports failure when the extraction fails,
  and whenever a step of its body raises (a missing document among them) it returns
  \<open>False\<close> instead of raising.
\<close>
theorem convert_readme_to_png_outcome:
  "(fst (convert_readme_to_png e readme_file output_png fs) \<longleftrightarrow>
      imgkit_config_ok e \<and> can_write e ''temp.html'' \<and>
      (\<exists>stored code page png.
         fs readme_file = Some stored \<and>
         extract_mermaid_code (read_text e stored) = Some code \<and> code \<noteq> [] \<and>
         write_text e (html_content code) = Some page \<and> wkhtmltoimage e page = Some png \<and>
         snd (convert_readme_to_png e readme_file output_png fs) =
           (fs(''temp.html'' \<mapsto> page, output_png \<mapsto> png))(''temp.html'' := None))) \<and>
   (convert_body e readme_file output_png fs = (Inl err, fs') \<longrightarrow>
      convert_readme_to_png e readme_file output_png fs = (False, fs')) \<and>
   (fs readme_file = None \<longrightarrow>
      convert_readme_to_png e readme_file output_png fs = (False, fs)) \<and>
   (fs readme_file = Some doc \<and>
    (extract_mermaid_code (read_text e doc) = None \<or>
     extract_mermaid_code (read_text e doc) = Some []) \<longrightarrow>
      convert_readme_to_png e readme_file output_png fs = (False, fs))"
proof (intro conjI impI)
  show "fst (convert_readme_to_png e readme_file output_png fs) \<longleftrightarrow>
      imgkit_config_ok e \<and> can_write e ''temp.html'' \<and>
      (\<exists>stored code page png.
         fs readme_file = Some stored \<and>
         extract_mermaid_code (read_text e stored) = Some code \<and> code \<noteq> [] \<and>
         write_text e (html_content code) = Some page \<and> wkhtmltoimage e page = Some png \<and>
         snd (convert_readme_to_png e readme_file output_png fs) =
           (fs(''temp.html'' \<mapsto> page, output_png \<mapsto> png))(''temp.html'' := None))"
    by (auto simp: convert_readme_to_png_def convert_body_def split: option.splits)
next
  assume "convert_body e readme_file output_png fs = (Inl err, fs')"
  then show "convert_readme_to_png e readme_file output_png fs = (False, fs')"
    by (simp add: convert_readme_to_png_def)
next
  assume "fs readme_file = None"
  then show "convert_readme_to_png e readme_file output_png fs = (False, fs)"
    by (simp add: convert_readme_to_png_def convert_body_def)
next
  assume "fs readme_file = Some doc \<and>
    (extract_mermaid_code (read_text e doc) = None \<or>
     extract_mermaid_code (read_text e doc) = Some [])"
  then show "convert_readme_to_png e readme_file output_png fs = (False, fs)"
    by (auto simp: convert_readme_to_png_def convert_body_def)
qed

theorem convert_readme_to_png_outcome_witness:
  "convert_readme_to_png (posix_env (Inl UpstreamError) (Some [137, 80, 78, 71]))
      ''readme.md'' ''mermaid_diagram.png'' Map.empty = (False, Map.empty) \<and>
   convert_readme_to_png (posix_env (Inl UpstreamError) (Some [137, 80, 78, 71]))
      ''readme.md'' ''mermaid_diagram.png'' [''readme.md'' \<mapsto> str ''# notes, no diagram'']
     = (False, [''readme.md'' \<mapsto> str ''# notes, no diagram'']) \<and>
   convert_readme_to_png (posix_env (Inl UpstreamError) None)
      ''readme.md'' ''mermaid_diagram.png''
      [''readme.md'' \<mapsto> str ''## Mermaid Diagram\<newline>```mermaid\<newline>graph TD\<newline>```\<newline>'']
     = (False, [''readme.md'' \<mapsto> str ''## Mermaid Diagram\<newline>```mermaid\<newline>graph TD\<newline>```\<newline>'',
                ''temp.html'' \<mapsto> html_content (str ''graph TD'')]) \<and>
   fst (convert_readme_to_png (posix_env (Inl UpstreamError) (Some [137, 80, 78, 71]))
      ''readme.md'' ''mermaid_diagram.png''
      [''readme.md'' \<mapsto> str ''## Mermaid Diagram\<newline>```mermaid\<newline>graph TD\<newline>```\<newline>''])"
proof -
  let ?ok = "posix_env (Inl UpstreamError) (Some [137, 80, 78, 71])"
  let ?bad = "posix_env (Inl UpstreamError) None"
  let ?doc = "str ''## Mermaid Diagram\<newline>```mermaid\<newline>graph TD\<newline>```\<newline>''"
  have a: "Map.empty ''readme.md'' = (None :: pystr option)" by simp
  have b: "[''readme.md'' \<mapsto> str ''# notes, no diagram''] ''readme.md'' = Some (str ''# notes, no diagram'') \<and>
      (extract_mermaid_code (read_text ?ok (str ''# notes, no diagram'')) = None \<or>
       extract_mermaid_code (read_text ?ok (str ''# notes, no diagram'')) = Some [])"
    by (simp add: ev2 ev)
  have c: "convert_body ?bad ''readme.md'' ''mermaid_diagram.png'' [''readme.md'' \<mapsto> ?doc]
      = (Inl OSError, [''readme.md'' \<mapsto> ?doc, ''temp.html'' \<mapsto> html_content (str ''graph TD'')])"
    by (simp add: ev3 ev2 ev)
  have d: "imgkit_config_ok ?ok \<and> can_write ?ok ''temp.html'' \<and>
      [''readme.md'' \<mapsto> ?doc] ''readme.md'' = Some ?doc \<and>
      extract_mermaid_code (read_text ?ok ?doc) = Some (str ''graph TD'') \<and>
      str ''graph TD'' \<noteq> [] \<and>
      write_text ?ok (html_content (str ''graph TD'')) = Some (html_content (str ''graph TD'')) \<and>
      wkhtmltoimage ?ok (html_content (str ''graph TD'')) = Some [137, 80, 78, 71] \<and>
      snd (convert_readme_to_png ?ok ''readme.md'' ''mermaid_diagram.png'' [''readme.md'' \<mapsto> ?doc]) =
        ([''readme.md'' \<mapsto> ?doc](''temp.html'' \<mapsto> html_content (str ''graph TD''),
            ''mermaid_diagram.png'' \<mapsto> [137, 80, 78, 71]))(''temp.html'' := None)"
    by (simp add: ev3 ev2 ev)
  from convert_readme_to_png_outcome [of ?ok "''readme.md''" "''mermaid_diagram.png''" Map.empty] a
  have 1: "convert_readme_to_png ?ok ''readme.md'' ''mermaid_diagram.png'' Map.empty = (False, Map.empty)"
    by blast
  from convert_readme_to_png_outcome
    [of ?ok "''readme.md''" "''mermaid_diagram.png''" "[''readme.md'' \<mapsto> str ''# notes, no diagram'']"
        _ _ "str ''# notes, no diagram''"] b
  have 2: "convert_readme_to_png ?ok ''readme.md'' ''mermaid_diagram.png''
      [''readme.md'' \<mapsto> str ''# notes, no diagram'']
     = (False, [''readme.md'' \<mapsto> str ''# notes, no diagram''])" by blast
  from convert_readme_to_png_outcome
    [of ?bad "''readme.md''" "''mermaid_diagram.png''" "[''readme.md'' \<mapsto> ?doc]" OSError
        "[''readme.md'' \<mapsto> ?doc, ''temp.html'' \<mapsto> html_content (str ''graph TD'')]"] c
  have 3: "convert_readme_to_png ?bad ''readme.md'' ''mermaid_diagram.png'' [''readme.md'' \<mapsto> ?doc]
     = (False, [''readme.md'' \<mapsto> ?doc, ''temp.html'' \<mapsto> html_content (str ''graph TD'')])"
    by blast
  from convert_readme_to_png_outcome
    [of ?ok "''readme.md''" "''mermaid_diagram.png''" "[''readme.md'' \<mapsto> ?doc]"] d
  have 4: "fst (convert_readme_to_png ?ok ''readme.md'' ''mermaid_diagram.png'' [''readme.md'' \<mapsto> ?doc])"
    by blast
  from 1 2 3 4 show ?thesis by blast
qed

end
